theory Spec2Isabelle
  imports Complex_Main "HOL-Library.Word"
begin

section \<open>JavaScript values\<close>

text \<open>
  The extension has two halves that exchange messages: the completion provider
  (class \<open>WebLLMInlineProvider\<close>, the foreground) and the web worker (class \<open>Worker\<close>,
  the background). Both are embedded here as state-passing functions: a handler takes the
  state of its object and returns the new state together with the messages it posted, in
  posting order.

  JavaScript numbers that the code only passes on (the sampling parameters) are rationals;
  the two counters of the provider start at 0 and are only incremented, so they are
  naturals (a JavaScript number is exact on them below \<open>2 ^ 53\<close>). Strings are lists of
  code units. A thrown value is an \<open>Error\<close> object or a \<open>TypeError\<close> raised by the
  runtime (both have a \<open>message\<close>), \<open>null\<close>, \<open>undefined\<close>, or some other
  value that has no \<open>message\<close>, kept as its JSON text.
\<close>

type_synonym number = rat

datatype js_exn = JsError string | TypeError string | Thrown string | ThrownNull | ThrownUndefined

text \<open>
  \<open>e instanceof Error ? e.message : JSON.stringify(e)\<close>; \<open>JSON.stringify(undefined)\<close>
  is undefined.
\<close>

definition message_or_json :: "js_exn \<Rightarrow> string option" where
  "message_or_json e =
     (case e of
        JsError m \<Rightarrow> Some m
      | TypeError m \<Rightarrow> Some m
      | Thrown j \<Rightarrow> Some j
      | ThrownNull \<Rightarrow> Some ''null''
      | ThrownUndefined \<Rightarrow> None)"

text \<open>
  \<open>(e as Error).message\<close>: undefined on a value without the property, and a
  \<open>TypeError\<close> of its own when \<open>e\<close> is \<open>null\<close> or \<open>undefined\<close>.
\<close>

definition message_of :: "js_exn \<Rightarrow> js_exn + string option" where
  "message_of e =
     (case e of
        JsError m \<Rightarrow> Inr (Some m)
      | TypeError m \<Rightarrow> Inr (Some m)
      | Thrown j \<Rightarrow> Inr None
      | ThrownNull \<Rightarrow> Inl (TypeError ''cannot read message of null'')
      | ThrownUndefined \<Rightarrow> Inl (TypeError ''cannot read message of undefined''))"

text \<open>How a call of an (async) function ends.\<close>

datatype outcome = Returned | Threw js_exn

text \<open>
  \<open>String.prototype.slice(start, end)\<close> on integral arguments: a negative index counts
  from the end, and both are clamped to the string.
\<close>

definition js_index :: "nat \<Rightarrow> int \<Rightarrow> nat" where
  "js_index len i = (if i < 0 then nat (max (int len + i) 0) else min (nat i) len)"

definition slice :: "string \<Rightarrow> int \<Rightarrow> int option \<Rightarrow> string" where
  "slice s start stop =
     (let len = length s;
          from = js_index len start;
          to = (case stop of None \<Rightarrow> len | Some e \<Rightarrow> js_index len e)
      in take (to - from) (drop from s))"

text \<open>\<open>s.substring(n)\<close> for \<open>n = text.length\<close>, a natural: the code units from \<open>n\<close> on.\<close>

definition substring :: "string \<Rightarrow> nat \<Rightarrow> string" where
  "substring s n = drop n s"

text \<open>Decimal rendering of a counter, as \<open>'T' + n\<close> concatenates it.\<close>

definition digit :: "nat \<Rightarrow> char" where
  "digit d = char_of (48 + d)"

fun string_of_nat :: "nat \<Rightarrow> string" where
  "string_of_nat n = (if n < 10 then [digit n] else string_of_nat (n div 10) @ [digit (n mod 10)])"

section \<open>The message contract (types.ts)\<close>

type_synonym SharedArrayBuffer = nat

record IGenerate =
  g_model :: string
  g_text :: string
  g_systemPrompt :: string
  g_temperature :: "number option"
  g_top_p :: "number option"
  g_generateN :: int
  g_frequency_penalty :: "number option"
  g_presence_penalty :: "number option"
  g_max_gen_len :: "number option"
  g_idTokens :: "string list"
  g_counter :: nat

datatype ClientMessage =
    Configure
  | InitializeBuffer SharedArrayBuffer
  | InitializeModel string
  | DisposeModel string
  | Generate IGenerate

record InitProgressReport =
  p_progress :: number
  p_timeElapsed :: number
  p_text :: string

text \<open>
  The worker's messages, tagged by \<open>status\<close>. \<open>MInterrupted\<close> and \<open>MException\<close> carry
  \<open>idTokens\<close> and \<open>error.message\<close>; the \<open>IException\<close> shape has no \<open>idTokens\<close>,
  which is \<open>None\<close> here.
\<close>

datatype WorkerMessage =
    MWorkerStarted
  | MInitiate string
  | MProgress string InitProgressReport
  | MDone string
  | MReady string
  | MUpdate (m_output: string) (m_idToken: string)
  | MComplete (m_output: string) (m_idToken: string)
  | MInterrupted "string list" "string option"
  | MException "string list option" "string option"
  | MUnhandled string

section \<open>The worker (worker.ts)\<close>

text \<open>
  The engine is the external capability. A streaming chat completion is the list of
  the chunks it delivers and how the stream ends; a chunk is the list of its choices'
  \<open>delta.content\<close> (undefined in the last chunk). A rejection of
  \<open>engine.chat.completions.create\<close> itself is a stream that throws before its first chunk.
\<close>

type_synonym chunk = "string option list"

datatype stream_end = EndOfStream | StreamThrows js_exn

record ChatCompletionRequest =
  r_stream :: bool
  r_messages :: "(string \<times> string) list"
  r_n :: nat
  r_temperature :: "number option"
  r_frequency_penalty :: "number option"
  r_presence_penalty :: "number option"
  r_max_gen_len :: "number option"
  r_top_p :: "number option"

type_synonym engine = "ChatCompletionRequest \<Rightarrow> chunk list \<times> stream_end"

text \<open>
  A promise of the worker is represented by its settlement. \<open>CompletionModel\<close> wraps the
  promise that \<open>webllm.CreateEngine\<close> returned.
\<close>

datatype 'a promise = Fulfils 'a | Rejects js_exn

record CompletionModel =
  instance_of :: "engine promise"

text \<open>
  What the environment decides during one message of the worker: what
  \<open>webllm.CreateEngine\<close> does for a model name (it throws, or it returns a promise and
  reports progress while loading), and the value of \<open>sharedArray[0]\<close> at each read
  (the foreground writes the cell at any time): read 0 is the one before the request is
  built, read \<open>k + 1\<close> the one at chunk \<open>k\<close>.
\<close>

datatype creation = CreateThrows js_exn | Created "InitProgressReport list" "engine promise"

record environment =
  CreateEngine :: "string \<Rightarrow> creation"
  shared_reads :: "nat \<Rightarrow> int"

record worker =
  sharedArray :: "SharedArrayBuffer option"
  completionModels :: "string \<rightharpoonup> CompletionModel"

definition new_worker :: worker where
  "new_worker = \<lparr>sharedArray = None, completionModels = Map.empty\<rparr>"

text \<open>
  \<open>_initializeModel\<close>. The result is the model or the exception of the constructor.
  The messages of a new model are \<open>initiate\<close>, then those the load posts on its own:
  the progress reports and, from the \<open>then\<close> callback, \<open>done\<close> when the instance
  fulfils. Nothing that waits for the instance runs before them. An exception of the
  constructor comes after \<open>initiate\<close> is posted and before the model is stored.
\<close>

definition initializeModel :: "environment \<Rightarrow> string \<Rightarrow> worker \<Rightarrow>
    (js_exn + CompletionModel) \<times> WorkerMessage list \<times> worker" where
  "initializeModel env name w =
     (case completionModels w name of
        Some model \<Rightarrow> (Inr model, [], w)
      | None \<Rightarrow>
          (case CreateEngine env name of
             CreateThrows e \<Rightarrow> (Inl e, [MInitiate name], w)
           | Created reports p \<Rightarrow>
               (let model = \<lparr>instance_of = p\<rparr>
                in (Inr model,
                    [MInitiate name] @ map (MProgress name) reports @
                      (case p of Fulfils _ \<Rightarrow> [MDone name] | Rejects _ \<Rightarrow> []),
                    w\<lparr>completionModels := (completionModels w)(name \<mapsto> model)\<rparr>))))"

text \<open>\<open>CompletionModel.dispose\<close> awaits the instance; unloading is the engine's business.\<close>

definition dispose :: "CompletionModel \<Rightarrow> outcome" where
  "dispose model = (case instance_of model of Fulfils _ \<Rightarrow> Returned | Rejects e \<Rightarrow> Threw e)"

definition disposeModel :: "string \<Rightarrow> worker \<Rightarrow> outcome \<times> worker" where
  "disposeModel name w =
     (case completionModels w name of
        None \<Rightarrow> (Returned, w)
      | Some model \<Rightarrow> (dispose model, w\<lparr>completionModels := (completionModels w)(name := None)\<rparr>))"

definition initializeBuffer :: "SharedArrayBuffer \<Rightarrow> worker \<Rightarrow> worker" where
  "initializeBuffer buffer w = w\<lparr>sharedArray := Some buffer\<rparr>"

text \<open>The request \<open>_generate\<close> builds (lines 151 to 169 of the worker).\<close>

definition chat_request :: "IGenerate \<Rightarrow> ChatCompletionRequest" where
  "chat_request data =
     \<lparr>r_stream = True,
      r_messages =
        [(''system'', ''You are a pirate chatbot who always responds in pirate speak!''),
         (''user'', g_text data)],
      r_n = length (g_idTokens data),
      r_temperature = g_temperature data,
      r_frequency_penalty = g_frequency_penalty data,
      r_presence_penalty = g_presence_penalty data,
      r_max_gen_len = g_max_gen_len data,
      r_top_p = g_top_p data\<rparr>"

text \<open>
  The inner loop over the candidates of one chunk, \<open>i\<close> running through the given
  indices. \<open>chunk.choices[i]\<close> is undefined past the chunk's choices, and reading its
  \<open>delta\<close> throws; a content that is undefined or empty is not appended.
\<close>

fun update_candidates :: "string \<Rightarrow> string list \<Rightarrow> chunk \<Rightarrow> nat list \<Rightarrow> string list \<Rightarrow>
    js_exn option \<times> string list \<times> WorkerMessage list" where
  "update_candidates txt idTokens choices [] output = (None, output, [])"
| "update_candidates txt idTokens choices (i # is) output =
     (if i < length choices then
        (let output' =
               (case choices ! i of
                  None \<Rightarrow> output
                | Some content \<Rightarrow> if content = [] then output else output[i := output ! i @ content]);
             posted = MUpdate (substring (output' ! i) (length txt)) (idTokens ! i)
         in case update_candidates txt idTokens choices is output' of
              (thrown, output'', later) \<Rightarrow> (thrown, output'', posted # later))
      else (Some (TypeError ''chunk.choices[i] is undefined''), output, []))"

text \<open>
  The \<open>for await\<close> loop: before each chunk the shared cell is read again, and a value
  other than the request's counter throws \<open>Execution interrupted\<close>.
\<close>

fun for_await :: "environment \<Rightarrow> IGenerate \<Rightarrow> nat \<Rightarrow> chunk list \<Rightarrow> stream_end \<Rightarrow> string list \<Rightarrow>
    js_exn option \<times> string list \<times> WorkerMessage list" where
  "for_await env data k [] ending output =
     (case ending of EndOfStream \<Rightarrow> (None, output, []) | StreamThrows e \<Rightarrow> (Some e, output, []))"
| "for_await env data k (c # cs) ending output =
     (if shared_reads env (Suc k) \<noteq> int (g_counter data)
      then (Some (JsError ''Execution interrupted''), output, [])
      else
        (case update_candidates (g_text data) (g_idTokens data) c [0..<length (g_idTokens data)] output of
           (Some e, output', posted) \<Rightarrow> (Some e, output', posted)
         | (None, output', posted) \<Rightarrow>
             (case for_await env data (Suc k) cs ending output' of
                (thrown, output'', later) \<Rightarrow> (thrown, output'', posted @ later))))"

text \<open>
  The \<open>catch\<close> of the stream: it reads the message of what was thrown (which throws
  in its turn on \<open>null\<close> and \<open>undefined\<close>, out of \<open>_generate\<close>), and posts one
  terminal error event with the request's tokens.
\<close>

definition catch_stream :: "IGenerate \<Rightarrow> js_exn \<Rightarrow> js_exn + WorkerMessage" where
  "catch_stream data e =
     (case message_of e of
        Inl thrown \<Rightarrow> Inl thrown
      | Inr message \<Rightarrow>
          Inr (if message = Some ''Execution interrupted''
               then MInterrupted (g_idTokens data) message
               else MException (Some (g_idTokens data)) message))"

text \<open>
  The last loop of \<open>_generate\<close> reads \<open>output[i].generated_text\<close>. Every \<open>output[i]\<close>
  is a string (the array is filled with \<open>''\<close> and only appended to), and a string has no
  property of that name: the read gives undefined, and calling \<open>substring\<close> on it throws
  before \<open>postMessage\<close> is reached.
\<close>

definition generated_text :: "string \<Rightarrow> string option" where
  "generated_text s = None"

fun complete_loop :: "string \<Rightarrow> string list \<Rightarrow> string list \<Rightarrow> nat list \<Rightarrow> outcome \<times> WorkerMessage list" where
  "complete_loop txt idTokens output [] = (Returned, [])"
| "complete_loop txt idTokens output (i # is) =
     (case generated_text (output ! i) of
        None \<Rightarrow> (Threw (TypeError ''output[i].generated_text is undefined''), [])
      | Some g \<Rightarrow>
          (case complete_loop txt idTokens output is of
             (r, later) \<Rightarrow> (r, MComplete (substring g (length txt)) (idTokens ! i) # later)))"

text \<open>\<open>_generate\<close>: how the call ends, the messages it posted, and the worker after it.\<close>

definition generate :: "environment \<Rightarrow> IGenerate \<Rightarrow> worker \<Rightarrow> outcome \<times> WorkerMessage list \<times> worker" where
  "generate env data w =
     (case sharedArray w of
        None \<Rightarrow> (Threw (JsError ''Cannot generate before initializeBuffer message got processed''), [], w)
      | Some buffer \<Rightarrow>
          (case initializeModel env (g_model data) w of
             (Inl e, posted, w') \<Rightarrow>
               (Returned, posted @ [MException None (message_or_json e)], w')
           | (Inr model, posted, w') \<Rightarrow>
               (case instance_of model of
                  Rejects e \<Rightarrow>
                    (Returned, posted @ [MException None (message_or_json e)], w')
                | Fulfils engine \<Rightarrow>
                    if shared_reads env 0 \<noteq> int (g_counter data) then (Returned, posted, w')
                    else
                      (let n = length (g_idTokens data);
                           (chunks, ending) = engine (chat_request data)
                       in case for_await env data 0 chunks ending (replicate n []) of
                            (thrown, output, updates) \<Rightarrow>
                              (case (case thrown of
                                       None \<Rightarrow> Inr []
                                     | Some e \<Rightarrow>
                                         (case catch_stream data e of
                                            Inl t \<Rightarrow> Inl t
                                          | Inr event \<Rightarrow> Inr [event])) of
                                 Inl t \<Rightarrow> (Threw t, posted @ updates, w')
                               | Inr caught \<Rightarrow>
                                   (case complete_loop (g_text data) (g_idTokens data) output
                                           [0..<length output] of
                                      (r, completes) \<Rightarrow>
                                        (r, posted @ updates @ caught @ completes, w')))))))"

text \<open>
  \<open>handleMessage\<close>. For \<open>initializeModel\<close> the handler adds a \<open>catch\<close> to the
  instance, which posts an exception event (of the \<open>IException\<close> shape) when the load
  rejects.
\<close>

definition handleMessage :: "environment \<Rightarrow> ClientMessage \<Rightarrow> worker \<Rightarrow> outcome \<times> WorkerMessage list \<times> worker" where
  "handleMessage env msg w =
     (case msg of
        Generate data \<Rightarrow> generate env data w
      | Configure \<Rightarrow> (Returned, [], w)
      | InitializeBuffer buffer \<Rightarrow> (Returned, [], initializeBuffer buffer w)
      | InitializeModel name \<Rightarrow>
          (case initializeModel env name w of
             (Inl e, posted, w') \<Rightarrow> (Threw e, posted, w')
           | (Inr model, posted, w') \<Rightarrow>
               (Returned,
                posted @ (case instance_of model of
                            Fulfils _ \<Rightarrow> []
                          | Rejects e \<Rightarrow> [MException None (message_or_json e)]),
                w'))
      | DisposeModel name \<Rightarrow> (case disposeModel name w of (r, w') \<Rightarrow> (r, [], w')))"

text \<open>A run of the worker over a list of messages, each with its environment.\<close>

fun handleMessages :: "(environment \<times> ClientMessage) list \<Rightarrow> worker \<Rightarrow> WorkerMessage list \<times> worker" where
  "handleMessages [] w = ([], w)"
| "handleMessages ((env, msg) # rest) w =
     (case handleMessage env msg w of
        (r, posted, w') \<Rightarrow> (case handleMessages rest w' of (later, w'') \<Rightarrow> (posted @ later, w'')))"

section \<open>The completion provider (index.ts)\<close>

record ISettings =
  codeModel :: string
  textModel :: string
  temperature :: "number option"
  top_p :: "number option"
  generateN :: int
  max_gen_len :: "number option"
  frequency_penalty :: "number option"
  presence_penalty :: "number option"
  repetition_penalty :: "number option"
  maxContextWindow :: int

definition DEFAULT_SETTINGS :: ISettings where
  "DEFAULT_SETTINGS =
     \<lparr>codeModel = ''none'',
      textModel = ''Llama-3-8B-Instruct-q4f32_1-1k'',
      temperature = Some (1 / 2),
      top_p = None,
      generateN = 2,
      max_gen_len = Some 512,
      frequency_penalty = Some 0,
      presence_penalty = Some 0,
      repetition_penalty = Some 0,
      maxContextWindow = 525\<rparr>"

record IRequest =
  req_text :: string
  req_offset :: int
  req_mimeType :: "string option"

record IInlineCompletionItem =
  insertText :: string
  isIncomplete :: "bool option"
  token :: "string option"

record IStream =
  is_done :: bool
  response :: IInlineCompletionItem

text \<open>
  A \<open>PromiseDelegate\<close> is an object on the heap: the map \<open>_streamPromises\<close> and a
  suspended \<open>stream\<close> generator may hold the same one, and replacing the map leaves the
  generator's delegate alive. So delegates are references into a store of settlements.
  Settling a delegate that is settled already does nothing.
\<close>

datatype 'a settlement = Pending | Resolved 'a | Rejected

type_synonym ref = nat

definition resolve :: "ref \<Rightarrow> 'a \<Rightarrow> (ref \<Rightarrow> 'a settlement) \<Rightarrow> (ref \<Rightarrow> 'a settlement)" where
  "resolve d v store = (case store d of Pending \<Rightarrow> store(d := Resolved v) | _ \<Rightarrow> store)"

definition reject :: "ref \<Rightarrow> (ref \<Rightarrow> 'a settlement) \<Rightarrow> (ref \<Rightarrow> 'a settlement)" where
  "reject d store = (case store d of Pending \<Rightarrow> store(d := Rejected) | _ \<Rightarrow> store)"

text \<open>
  \<open>_ready\<close> and \<open>_loadingNotifications\<close> are plain objects used as dictionaries
  (\<open>Record<string, ...> = {}\<close>), so reading a key that was never stored finds what the
  object inherits: the properties of \<open>Object.prototype\<close>. A read gives a stored value,
  an inherited value (an object or function that is none of the stored values), or
  undefined.

  Storing under \<open>__proto__\<close> does not add a key: it replaces the prototype when the value
  is an object (a delegate), and does nothing when it is a string (a notification
  identifier). A later read of \<open>__proto__\<close> gives the prototype. So in \<open>_ready\<close> the
  entry of \<open>__proto__\<close> stands for the delegate that is the prototype, and once there
  is one the record also inherits the properties of a delegate.
\<close>

datatype 'a property = Own 'a | Inherited | Undefined

definition Object_prototype_keys :: "string list" where
  "Object_prototype_keys =
     [''constructor'', ''__defineGetter__'', ''__defineSetter__'', ''hasOwnProperty'',
      ''__lookupGetter__'', ''__lookupSetter__'', ''isPrototypeOf'', ''propertyIsEnumerable'',
      ''toString'', ''valueOf'', ''__proto__'', ''toLocaleString'']"

definition PromiseDelegate_keys :: "string list" where
  "PromiseDelegate_keys = [''promise'', ''_resolve'', ''_reject'', ''resolve'', ''reject'']"

text \<open>
  The calls on the host's \<open>Notification\<close> manager, as a log. \<open>emit\<close> returns the
  identifier of the new notification, here the number of calls logged before it; the
  identifier passed to \<open>update\<close> and \<open>dismiss\<close> is what the read of
  \<open>_loadingNotifications\<close> gave.
\<close>

datatype notice =
    Loading string
  | LoadingProgress string InitProgressReport
  | LoadedCompiling string
  | WorkerError "string option"

datatype NotificationCall =
    N_emit notice
  | N_update "nat property" notice
  | N_dismiss "nat property"
  | N_error notice

datatype content_type = Code | Text

text \<open>
  What runs after an \<open>await\<close>: the callback of the constructor that posts
  \<open>initializeBuffer\<close>, the rest of \<open>configure\<close>, and the rest of \<open>fetch\<close> with
  the model, the content class and the request it had before the \<open>await\<close>.
\<close>

datatype job = InitializeBufferJob | ConfigureJob | FetchJob string bool IRequest

text \<open>
  The provider. After the fields of the class come the parts of the runtime that its
  methods act on: the two stores of delegates; the continuations that wait for
  \<open>_workerStarted\<close> and for a readiness delegate; the queue of the continuations that
  are due, which run one at a time, in order, each as a microtask (an \<open>await\<close> always
  suspends, also on a promise that is resolved already); the messages posted to the
  worker; the notification calls; and the values the \<open>fetch\<close> promises resolved with.
  \<open>sharedArray0\<close> is element 0 of the \<open>Int32Array\<close>.
\<close>

record provider =
  currentGeneration :: nat
  currentModels :: "content_type \<rightharpoonup> string"
  loadingNotifications :: "string \<rightharpoonup> nat"
  ready :: "string \<rightharpoonup> ref"
  settings :: ISettings
  sharedArray0 :: "32 word"
  streamPromises :: "string \<rightharpoonup> ref"
  tokenCounter :: nat
  workerStarted :: bool
  delegates :: "ref \<Rightarrow> IStream settlement"
  nextDelegate :: ref
  readyDelegates :: "ref \<Rightarrow> unit settlement"
  nextReady :: ref
  started_waiting :: "job list"
  fetch_waiting :: "(ref \<times> job) list"
  jobs :: "job list"
  posted :: "ClientMessage list"
  notifications :: "NotificationCall list"
  fetched :: "IInlineCompletionItem list list"

text \<open>The constructor registers its callback on \<open>_workerStarted\<close>.\<close>

definition new_provider :: provider where
  "new_provider =
     \<lparr>currentGeneration = 0,
      currentModels = Map.empty,
      loadingNotifications = Map.empty,
      ready = Map.empty,
      settings = DEFAULT_SETTINGS,
      sharedArray0 = 0,
      streamPromises = Map.empty,
      tokenCounter = 0,
      workerStarted = False,
      delegates = (\<lambda>_. Pending),
      nextDelegate = 0,
      readyDelegates = (\<lambda>_. Pending),
      nextReady = 0,
      started_waiting = [InitializeBufferJob],
      fetch_waiting = [],
      jobs = [],
      posted = [],
      notifications = [],
      fetched = []\<rparr>"

text \<open>\<open>this._ready[model]\<close> and \<open>this._loadingNotifications[model]\<close>.\<close>

definition ready_lookup :: "provider \<Rightarrow> string \<Rightarrow> ref property" where
  "ready_lookup c model =
     (case ready c model of
        Some d \<Rightarrow> Own d
      | None \<Rightarrow>
          if model \<in> set Object_prototype_keys \<or>
             (ready c ''__proto__'' \<noteq> None \<and> model \<in> set PromiseDelegate_keys)
          then Inherited else Undefined)"

definition notification_lookup :: "provider \<Rightarrow> string \<Rightarrow> nat property" where
  "notification_lookup c model =
     (case loadingNotifications c model of
        Some n \<Rightarrow> Own n
      | None \<Rightarrow> if model \<in> set Object_prototype_keys then Inherited else Undefined)"

definition postMessage :: "ClientMessage \<Rightarrow> provider \<Rightarrow> provider" where
  "postMessage message c = c\<lparr>posted := posted c @ [message]\<rparr>"

text \<open>\<open>Atomics.store\<close> on an \<open>Int32Array\<close> keeps the low 32 bits of the number.\<close>

definition tickWorker :: "provider \<Rightarrow> provider" where
  "tickWorker c = c\<lparr>sharedArray0 := word_of_nat (currentGeneration c)\<rparr>"

definition abortPrevious :: "provider \<Rightarrow> provider" where
  "abortPrevious c = tickWorker (c\<lparr>currentGeneration := currentGeneration c + 1\<rparr>)"

definition prefixFromRequest :: "IRequest \<Rightarrow> provider \<Rightarrow> string" where
  "prefixFromRequest request c =
     (let textBefore = slice (req_text request) 0 (Some (req_offset request));
          prefix = slice textBefore
                     (- min (maxContextWindow (settings c)) (int (length textBefore))) None
      in prefix)"

definition switchModel :: "string \<Rightarrow> content_type \<Rightarrow> provider \<Rightarrow> provider" where
  "switchModel newModel type c =
     (let oldModel = currentModels c type
      in if oldModel = Some newModel then c
         else
           (let c1 = (case oldModel of
                        None \<Rightarrow> c
                      | Some old \<Rightarrow> if old = [] then c else postMessage (DisposeModel old) c);
                c2 = (if newModel \<noteq> ''none'' then postMessage (InitializeModel newModel) c1 else c1)
            in c2\<lparr>currentModels := (currentModels c2)(type \<mapsto> newModel)\<rparr>))"

definition textMimeTypes :: "string list" where
  "textMimeTypes =
     [''text/x-ipythongfm'', ''text/x-markdown'', ''text/plain'',
      ''text/x-rst'', ''text/x-latex'', ''text/x-rsrc'']"

text \<open>
  The loop of \<open>fetch\<close> that mints the tokens: \<open>n\<close> rounds from the given value of
  \<open>_tokenCounter\<close>, each incrementing the counter first. It returns the tokens and
  the counter after the loop.
\<close>

fun mint :: "nat \<Rightarrow> nat \<Rightarrow> string list \<times> nat" where
  "mint 0 counter = ([], counter)"
| "mint (Suc n) counter =
     (let counter' = counter + 1;
          tok = ''T'' @ string_of_nat counter'
      in case mint n counter' of (toks, final) \<Rightarrow> (tok # toks, final))"

definition placeholder :: "string \<Rightarrow> IInlineCompletionItem" where
  "placeholder tok = \<lparr>insertText = [], isIncomplete = Some True, token = Some tok\<rparr>"

text \<open>
  \<open>fetch\<close> after its \<open>await\<close> (lines 175 to 206), with the model and the content
  class it computed before. The settings are read as they are now. The value the call
  resolves with is added to \<open>fetched\<close>.
\<close>

definition fetch_continue :: "string \<Rightarrow> bool \<Rightarrow> IRequest \<Rightarrow> provider \<Rightarrow> provider" where
  "fetch_continue model isText request c =
     (let c1 = abortPrevious c;
          c2 = c1\<lparr>streamPromises := Map.empty\<rparr>;
          prefix = prefixFromRequest request c2;
          (idTokens, counter) = mint (nat (generateN (settings c2))) (tokenCounter c2);
          c3 = c2\<lparr>tokenCounter := counter\<rparr>;
          c4 = postMessage
                 (Generate
                    \<lparr>g_model = model,
                     g_text = prefix,
                     g_systemPrompt =
                       ''You are a completion model generating '' @
                       (if isText then ''Markdown'' else ''code'') @ '' suggestions'',
                     g_temperature = temperature (settings c3),
                     g_top_p = top_p (settings c3),
                     g_generateN = generateN (settings c3),
                     g_frequency_penalty = frequency_penalty (settings c3),
                     g_presence_penalty = presence_penalty (settings c3),
                     g_max_gen_len = None,
                     g_idTokens = idTokens,
                     g_counter = currentGeneration c3\<rparr>)
                 c3
      in c4\<lparr>fetched := fetched c4 @ [map placeholder idTokens]\<rparr>)"

text \<open>
  \<open>fetch\<close> up to its \<open>await\<close> (lines 162 to 174). Reading \<open>promise\<close> of an
  undefined entry throws, and the call is over. An inherited entry has no \<open>promise\<close>,
  and \<open>await undefined\<close> lets the call continue as a resolved promise does: in a later
  microtask. On a pending promise the call continues after \<open>ready\<close> has resolved the
  delegate. Readiness delegates are never rejected.
\<close>

datatype fetch_result = FetchThrows js_exn | FetchAwaits

definition selected_model :: "IRequest \<Rightarrow> provider \<Rightarrow> bool \<times> string" where
  "selected_model request c =
     (let isText = (case req_mimeType request of None \<Rightarrow> False | Some m \<Rightarrow> m \<in> set textMimeTypes);
          model = (if isText then textModel (settings c) else codeModel (settings c))
      in (isText, model))"

definition fetch :: "IRequest \<Rightarrow> provider \<Rightarrow> fetch_result \<times> provider" where
  "fetch request c =
     (case selected_model request c of
        (isText, model) \<Rightarrow>
          (case ready_lookup c model of
             Undefined \<Rightarrow> (FetchThrows (TypeError ''this._ready[model] is undefined''), c)
           | Inherited \<Rightarrow> (FetchAwaits, c\<lparr>jobs := jobs c @ [FetchJob model isText request]\<rparr>)
           | Own d \<Rightarrow>
               (case readyDelegates c d of
                  Pending \<Rightarrow>
                    (FetchAwaits,
                     c\<lparr>fetch_waiting := fetch_waiting c @ [(d, FetchJob model isText request)]\<rparr>)
                | Resolved _ \<Rightarrow>
                    (FetchAwaits, c\<lparr>jobs := jobs c @ [FetchJob model isText request]\<rparr>)
                | Rejected \<Rightarrow> (FetchThrows ThrownNull, c))))"

text \<open>
  \<open>configure\<close> stores the settings at once and awaits \<open>_workerStarted\<close>; after
  that it switches the models, from the settings stored at that moment.
\<close>

definition configure_continue :: "provider \<Rightarrow> provider" where
  "configure_continue c =
     (let c1 = switchModel (codeModel (settings c)) Code c
      in switchModel (textModel (settings c1)) Text c1)"

definition configure :: "ISettings \<Rightarrow> provider \<Rightarrow> provider" where
  "configure new_settings c =
     (let c1 = c\<lparr>settings := new_settings\<rparr>
      in if workerStarted c1 then c1\<lparr>jobs := jobs c1 @ [ConfigureJob]\<rparr>
         else c1\<lparr>started_waiting := started_waiting c1 @ [ConfigureJob]\<rparr>)"

subsection \<open>Microtasks\<close>

definition the_buffer :: SharedArrayBuffer where
  "the_buffer = 0"

definition run_job :: "job \<Rightarrow> provider \<Rightarrow> provider" where
  "run_job j c =
     (case j of
        InitializeBufferJob \<Rightarrow> postMessage (InitializeBuffer the_buffer) c
      | ConfigureJob \<Rightarrow> configure_continue c
      | FetchJob model isText request \<Rightarrow> fetch_continue model isText request c)"

text \<open>One microtask: the first continuation that is due runs.\<close>

definition microtask :: "provider \<Rightarrow> provider" where
  "microtask c = (case jobs c of [] \<Rightarrow> c | j # js \<Rightarrow> run_job j (c\<lparr>jobs := js\<rparr>))"

subsection \<open>The stream generator\<close>

text \<open>
  Lines 215 and 216 of \<open>stream\<close>: a new delegate, stored in the current map under the
  token.
\<close>

definition new_stream_delegate :: "string \<Rightarrow> provider \<Rightarrow> ref \<times> provider" where
  "new_stream_delegate tok c =
     (let d = nextDelegate c
      in (d, c\<lparr>delegates := (delegates c)(d := Pending),
               nextDelegate := d + 1,
               streamPromises := (streamPromises c)(tok \<mapsto> d)\<rparr>))"

text \<open>
  One generator object of \<open>stream(token)\<close>: not started, suspended in
  \<open>yield promise\<close> while the delegate is pending (an async generator awaits the
  operand of \<open>yield\<close>), suspended at the \<open>yield\<close> after handing a value to the
  consumer, or finished (by the end of the loop or by an exception).
\<close>

datatype stream_state = Start | Awaiting ref | Yielded ref | Finished

text \<open>The consumer calls \<open>next()\<close>: the generator runs up to its next \<open>yield\<close>.\<close>

definition stream_next :: "string \<Rightarrow> stream_state \<Rightarrow> provider \<Rightarrow> stream_state \<times> provider" where
  "stream_next tok st c =
     (case st of
        Start \<Rightarrow> (case new_stream_delegate tok c of (d, c') \<Rightarrow> (Awaiting d, c'))
      | Yielded d \<Rightarrow>
          (case delegates c d of
             Resolved v \<Rightarrow>
               if is_done v then (Finished, c)
               else (case new_stream_delegate tok c of (d', c') \<Rightarrow> (Awaiting d', c'))
           | Rejected \<Rightarrow> (Finished, c)
           | Pending \<Rightarrow> (Yielded d, c))
      | Awaiting d \<Rightarrow> (Awaiting d, c)
      | Finished \<Rightarrow> (Finished, c))"

text \<open>
  What the consumer's pending \<open>next()\<close> has settled to, with the delegates as they are
  now: a value, a rejection (the generator ends with it), the end of the stream, or
  nothing yet.
\<close>

datatype pulled = Yields IStream | Fails | Ends | Waits

definition stream_settled :: "stream_state \<Rightarrow> provider \<Rightarrow> pulled \<times> stream_state" where
  "stream_settled st c =
     (case st of
        Awaiting d \<Rightarrow>
          (case delegates c d of
             Pending \<Rightarrow> (Waits, Awaiting d)
           | Resolved v \<Rightarrow> (Yields v, Yielded d)
           | Rejected \<Rightarrow> (Fails, Finished))
      | Finished \<Rightarrow> (Ends, Finished)
      | Start \<Rightarrow> (Waits, Start)
      | Yielded d \<Rightarrow> (Waits, Yielded d))"

subsection \<open>Messages from the worker\<close>

text \<open>
  \<open>worker-started\<close> resolves \<open>_workerStarted\<close>; the first time, what waited for it
  becomes due: the callback of the constructor, then the suspended \<open>configure\<close>
  calls.
\<close>

definition msgWorkerStarted :: "provider \<Rightarrow> provider" where
  "msgWorkerStarted c =
     (if workerStarted c then c
      else c\<lparr>workerStarted := True,
             jobs := jobs c @ started_waiting c,
             started_waiting := []\<rparr>)"

text \<open>
  \<open>_msgInitiate\<close>. The notification is updated when the read of
  \<open>_loadingNotifications\<close> is truthy (a stored identifier or an inherited value), and
  emitted and stored otherwise.
\<close>

definition msgInitiate :: "string \<Rightarrow> provider \<Rightarrow> provider" where
  "msgInitiate model c =
     (let d = nextReady c;
          c1 = c\<lparr>readyDelegates := (readyDelegates c)(d := Pending),
                 nextReady := d + 1,
                 ready := (ready c)(model \<mapsto> d)\<rparr>
      in case notification_lookup c1 model of
           Undefined \<Rightarrow>
             c1\<lparr>loadingNotifications :=
                   (loadingNotifications c1)(model \<mapsto> length (notifications c1)),
                 notifications := notifications c1 @ [N_emit (Loading model)]\<rparr>
         | found \<Rightarrow> c1\<lparr>notifications := notifications c1 @ [N_update found (Loading model)]\<rparr>)"

definition msgProgress :: "string \<Rightarrow> InitProgressReport \<Rightarrow> provider \<Rightarrow> provider" where
  "msgProgress model report c =
     c\<lparr>notifications := notifications c @
          [N_update (notification_lookup c model) (LoadingProgress model report)]\<rparr>"

definition msgDone :: "string \<Rightarrow> provider \<Rightarrow> provider" where
  "msgDone model c =
     c\<lparr>notifications := notifications c @
          [N_update (notification_lookup c model) (LoadedCompiling model)]\<rparr>"

text \<open>
  \<open>_msgReady\<close>. Calling \<open>resolve\<close> on an undefined or inherited entry throws, after
  the notification is dismissed. Resolving a pending delegate makes the \<open>fetch\<close>
  calls that wait for it due, in the order they came.
\<close>

definition msgReady :: "string \<Rightarrow> provider \<Rightarrow> outcome \<times> provider" where
  "msgReady model c =
     (let c1 = c\<lparr>notifications := notifications c @ [N_dismiss (notification_lookup c model)]\<rparr>
      in case ready_lookup c1 model of
           Own d \<Rightarrow>
             (case readyDelegates c1 d of
                Pending \<Rightarrow>
                  (Returned,
                   c1\<lparr>readyDelegates := resolve d () (readyDelegates c1),
                      jobs := jobs c1 @ map snd (filter (\<lambda>w. fst w = d) (fetch_waiting c1)),
                      fetch_waiting := filter (\<lambda>w. fst w \<noteq> d) (fetch_waiting c1)\<rparr>)
              | _ \<Rightarrow> (Returned, c1))
         | _ \<Rightarrow> (Threw (TypeError ''this._ready[data.model].resolve is not a function''), c1))"

definition msgUpdate :: "string \<Rightarrow> string \<Rightarrow> provider \<Rightarrow> provider" where
  "msgUpdate output idToken c =
     (let c1 = tickWorker c
      in case streamPromises c1 idToken of
           None \<Rightarrow> c1
         | Some delegate \<Rightarrow>
             c1\<lparr>delegates :=
                   resolve delegate
                     \<lparr>is_done = False,
                      response = \<lparr>insertText = output, isIncomplete = None, token = None\<rparr>\<rparr>
                     (delegates c1)\<rparr>)"

definition msgComplete :: "string \<Rightarrow> string \<Rightarrow> provider \<Rightarrow> provider" where
  "msgComplete output idToken c =
     (let c1 = (case streamPromises c idToken of
                  None \<Rightarrow> c
                | Some delegate \<Rightarrow>
                    c\<lparr>delegates :=
                        resolve delegate
                          \<lparr>is_done = True,
                           response = \<lparr>insertText = output, isIncomplete = None, token = None\<rparr>\<rparr>
                          (delegates c)\<rparr>)
      in c1\<lparr>streamPromises := (streamPromises c1)(idToken := None)\<rparr>)"

fun msgInterrupted :: "string list \<Rightarrow> provider \<Rightarrow> provider" where
  "msgInterrupted [] c = c"
| "msgInterrupted (tok # idTokens) c =
     (let c1 = (case streamPromises c tok of
                  None \<Rightarrow> c
                | Some delegate \<Rightarrow> c\<lparr>delegates := reject delegate (delegates c)\<rparr>)
      in msgInterrupted idTokens (c1\<lparr>streamPromises := (streamPromises c1)(tok := None)\<rparr>))"

text \<open>\<open>_msgException\<close> shows the notification and logs; it reads no \<open>idTokens\<close>.\<close>

definition msgException :: "string list option \<Rightarrow> string option \<Rightarrow> provider \<Rightarrow> provider" where
  "msgException idTokens error_message c =
     c\<lparr>notifications := notifications c @ [N_error (WorkerError error_message)]\<rparr>"

definition onMessageReceived :: "WorkerMessage \<Rightarrow> provider \<Rightarrow> outcome \<times> provider" where
  "onMessageReceived data c =
     (case data of
        MWorkerStarted \<Rightarrow> (Returned, msgWorkerStarted c)
      | MInitiate model \<Rightarrow> (Returned, msgInitiate model c)
      | MProgress model report \<Rightarrow> (Returned, msgProgress model report c)
      | MDone model \<Rightarrow> (Returned, msgDone model c)
      | MReady model \<Rightarrow> msgReady model c
      | MUpdate output idToken \<Rightarrow> (Returned, msgUpdate output idToken c)
      | MComplete output idToken \<Rightarrow> (Returned, msgComplete output idToken c)
      | MInterrupted idTokens e \<Rightarrow> (Returned, msgInterrupted idTokens c)
      | MException idTokens e \<Rightarrow> (Returned, msgException idTokens e c)
      | MUnhandled status \<Rightarrow> (Returned, c))"

subsection \<open>Runs of the provider\<close>

text \<open>
  Everything that acts on a provider: a call of \<open>fetch\<close> or \<open>configure\<close> by the
  host (up to its \<open>await\<close>), a \<open>stream\<close> generator reaching lines 215 and 216 for
  a token, a message from the worker, and a microtask of the provider. The runtime runs
  the due continuations before it delivers the next message; the sequences here are
  free to do so or not, so what holds of all of them holds of the runtime's. An
  exception of a handler ends that handler only.
\<close>

datatype event =
    Fetch IRequest
  | ConfigureWith ISettings
  | StreamRegisters string
  | Message WorkerMessage
  | Microtask

definition step :: "event \<Rightarrow> provider \<Rightarrow> provider" where
  "step ev c =
     (case ev of
        Fetch request \<Rightarrow> snd (fetch request c)
      | ConfigureWith s \<Rightarrow> configure s c
      | StreamRegisters tok \<Rightarrow> snd (new_stream_delegate tok c)
      | Message data \<Rightarrow> snd (onMessageReceived data c)
      | Microtask \<Rightarrow> microtask c)"

fun run :: "event list \<Rightarrow> provider \<Rightarrow> provider" where
  "run [] c = c"
| "run (ev # evs) c = run evs (step ev c)"

fun generates :: "ClientMessage list \<Rightarrow> IGenerate list" where
  "generates [] = []"
| "generates (Generate data # ms) = data # generates ms"
| "generates (m # ms) = generates ms"

section \<open>Vocabulary of the properties\<close>

text \<open>The discriminant of a worker message, and the \<open>idTokens\<close> field it carries.\<close>

definition status :: "WorkerMessage \<Rightarrow> string" where
  "status m =
     (case m of
        MWorkerStarted \<Rightarrow> ''worker-started''
      | MInitiate _ \<Rightarrow> ''initiate''
      | MProgress _ _ \<Rightarrow> ''progress''
      | MDone _ \<Rightarrow> ''done''
      | MReady _ \<Rightarrow> ''ready''
      | MUpdate _ _ \<Rightarrow> ''update''
      | MComplete _ _ \<Rightarrow> ''complete''
      | MInterrupted _ _ \<Rightarrow> ''interrupted''
      | MException _ _ \<Rightarrow> ''exception''
      | MUnhandled s \<Rightarrow> s)"

definition carried_tokens :: "WorkerMessage \<Rightarrow> string list option" where
  "carried_tokens m =
     (case m of
        MInterrupted idTokens _ \<Rightarrow> Some idTokens
      | MException idTokens _ \<Rightarrow> idTokens
      | _ \<Rightarrow> None)"

text \<open>
  The exception with which the load of a model fails, if it does: the instance of the
  registered model rejects, or, for a model that is not registered, the constructor throws
  or the new instance rejects.
\<close>

definition load_failure :: "environment \<Rightarrow> string \<Rightarrow> worker \<Rightarrow> js_exn option" where
  "load_failure env name w =
     (case completionModels w name of
        Some model \<Rightarrow> (case instance_of model of Rejects e \<Rightarrow> Some e | Fulfils _ \<Rightarrow> None)
      | None \<Rightarrow>
          (case CreateEngine env name of
             CreateThrows e \<Rightarrow> Some e
           | Created reports p \<Rightarrow> (case p of Rejects e \<Rightarrow> Some e | Fulfils _ \<Rightarrow> None)))"

text \<open>The token that \<open>fetch\<close> mints at a value of the counter.\<close>

definition token_of :: "nat \<Rightarrow> string" where
  "token_of k = ''T'' @ string_of_nat k"

text \<open>
  The invariant of the provider's counters: the epoch is the number of \<open>fetch\<close> calls
  that got past their \<open>await\<close>, the shared cell holds it, the generate messages
  posted so far carry 1, 2, ... in order, and their tokens are those of 1, 2, ... up to
  \<open>_tokenCounter\<close>.
\<close>

definition counters_agree :: "provider \<Rightarrow> bool" where
  "counters_agree c =
     (currentGeneration c = length (fetched c) \<and>
      sharedArray0 c = word_of_nat (currentGeneration c) \<and>
      map g_counter (generates (posted c)) = [1..<Suc (currentGeneration c)] \<and>
      concat (map g_idTokens (generates (posted c))) = map token_of [1..<Suc (tokenCounter c)])"

text \<open>
  The delegates below \<open>n\<close> are out of reach: no entry of \<open>_streamPromises\<close> refers
  to one of them, and new delegates are not below \<open>n\<close>.
\<close>

definition detached :: "ref \<Rightarrow> provider \<Rightarrow> bool" where
  "detached n c = (n \<le> nextDelegate c \<and> (\<forall>d \<in> ran (streamPromises c). n \<le> d))"

section \<open>Inputs used in the examples\<close>

text \<open>
  A request for two candidates on the prompt \<open>def\<close>, and three engines: one that
  streams two chunks echoing the prompt and ends, one whose stream throws after its first
  chunk, and a load that rejects.
\<close>

definition example_generate :: IGenerate where
  "example_generate =
     \<lparr>g_model = ''m'', g_text = ''def'', g_systemPrompt = ''You are a completion model generating code suggestions'',
      g_temperature = Some (1 / 2), g_top_p = None, g_generateN = 2,
      g_frequency_penalty = Some 0, g_presence_penalty = Some 0, g_max_gen_len = None,
      g_idTokens = [''T1'', ''T2''], g_counter = 1\<rparr>"

definition streaming_engine :: engine where
  "streaming_engine request = ([[Some ''defx'', Some ''defy''], [Some ''1'', None]], EndOfStream)"

definition failing_engine :: engine where
  "failing_engine request = ([[Some ''defx'', Some ''defy'']], StreamThrows (JsError ''device lost''))"

definition environment_of :: "engine promise \<Rightarrow> environment" where
  "environment_of p = \<lparr>CreateEngine = (\<lambda>name. Created [] p), shared_reads = (\<lambda>k. 1)\<rparr>"

definition started_worker :: worker where
  "started_worker = initializeBuffer the_buffer new_worker"

text \<open>
  A provider whose text model has been announced and reported ready, and a request in
  a Markdown file.
\<close>

definition markdown_request :: IRequest where
  "markdown_request = \<lparr>req_text = ''hello world'', req_offset = 5, req_mimeType = Some ''text/x-markdown''\<rparr>"

definition python_request :: IRequest where
  "python_request = \<lparr>req_text = ''def f():'', req_offset = 8, req_mimeType = Some ''text/x-python''\<rparr>"

definition ready_provider :: provider where
  "ready_provider =
     run [Message MWorkerStarted, Microtask, ConfigureWith DEFAULT_SETTINGS, Microtask,
          Message (MInitiate (textModel DEFAULT_SETTINGS)),
          Message (MReady (textModel DEFAULT_SETTINGS))] new_provider"

text \<open>
  That provider after one \<open>fetch\<close> (tokens \<open>T1\<close> and \<open>T2\<close>) and the first
  \<open>next()\<close> of the consumer on \<open>stream('T1')\<close>: delegate 0 is pending under \<open>T1\<close>.
\<close>

definition pulling_provider :: provider where
  "pulling_provider = run [Fetch markdown_request, Microtask, StreamRegisters ''T1''] ready_provider"

text \<open>\<open>n\<close> calls of \<open>fetch\<close> on the Markdown request, each followed by its microtask.\<close>

definition rounds :: "nat \<Rightarrow> event list" where
  "rounds n = concat (replicate n [Fetch markdown_request, Microtask])"

text \<open>
  The pulling provider after its text model was announced again, a second \<open>fetch\<close>
  that waits for it, and \<open>ready\<close>: the continuation of that \<open>fetch\<close> is due.
\<close>

definition resumed_provider :: provider where
  "resumed_provider =
     run [Message (MInitiate (textModel DEFAULT_SETTINGS)), Fetch markdown_request,
          Message (MReady (textModel DEFAULT_SETTINGS))] pulling_provider"

text \<open>
  The shared cell as the worker reads it when a second \<open>fetch\<close> bumps the epoch
  after the stream has started.
\<close>

definition superseded_environment :: environment where
  "superseded_environment =
     \<lparr>CreateEngine = (\<lambda>name. Created [] (Fulfils streaming_engine)),
      shared_reads = (\<lambda>k. if k = 0 then 1 else 2)\<rparr>"

text \<open>Settings whose code model is named like a property that every object inherits.\<close>

definition constructor_settings :: ISettings where
  "constructor_settings = DEFAULT_SETTINGS\<lparr>codeModel := ''constructor''\<rparr>"

section \<open>Properties of the worker\<close>

lemma status_simps [simp]:
  "status MWorkerStarted = ''worker-started''"
  "status (MInitiate name) = ''initiate''"
  "status (MProgress name report) = ''progress''"
  "status (MDone name) = ''done''"
  "status (MReady name) = ''ready''"
  "status (MUpdate out tok) = ''update''"
  "status (MComplete out tok) = ''complete''"
  "status (MInterrupted toks err) = ''interrupted''"
  "status (MException otoks err) = ''exception''"
  "status (MUnhandled s) = s"
  by (simp_all add: status_def)

lemma complete_loop_posts: "snd (complete_loop txt ids out is) = []"
  by (induction "is") (simp_all add: generated_text_def)

lemma complete_loop_throws:
  "is \<noteq> [] \<Longrightarrow> fst (complete_loop txt ids out is) = Threw (TypeError ''output[i].generated_text is undefined'')"
  by (cases "is") (simp_all add: generated_text_def)

lemma update_candidates_status:
  "update_candidates txt ids ch is out = (r, out', sent) \<Longrightarrow> m \<in> set sent \<Longrightarrow> status m = ''update''"
  by (induction "is" arbitrary: out r out' sent)
     (auto simp: Let_def split: if_splits prod.splits)

lemma for_await_status:
  "for_await env data k cs ending out = (r, out', sent) \<Longrightarrow> m \<in> set sent \<Longrightarrow> status m = ''update''"
proof (induction cs arbitrary: k out r out' sent)
  case Nil
  then show ?case by (auto split: stream_end.splits)
next
  case (Cons c cs)
  then show ?case
    by (auto split: if_splits prod.splits option.splits dest: update_candidates_status)
qed

lemma initializeModel_status:
  "initializeModel env name w = (r, sent, w') \<Longrightarrow> m \<in> set sent \<Longrightarrow>
     status m \<in> {''initiate'', ''progress'', ''done''}"
  by (auto simp: initializeModel_def Let_def
           split: option.splits creation.splits promise.splits)

lemma catch_stream_status:
  "catch_stream data e = Inr event \<Longrightarrow> status event \<in> {''interrupted'', ''exception''}"
  by (auto simp: catch_stream_def split: sum.splits if_splits)

lemma generate_status:
  assumes "generate env data w = (r, sent, w')" and "m \<in> set sent"
  shows "status m \<in> {''initiate'', ''progress'', ''done'', ''update'', ''interrupted'', ''exception''}"
proof (cases "sharedArray w")
  case None
  with assms show ?thesis by (simp add: generate_def)
next
  case (Some b)
  obtain im pm wm where im: "initializeModel env (g_model data) w = (im, pm, wm)"
    by (cases "initializeModel env (g_model data) w") auto
  have load: "\<forall>x\<in>set pm. status x \<in> {''initiate'', ''progress'', ''done''}"
    using initializeModel_status [OF im] by blast
  show ?thesis
  proof (cases im)
    case (Inl e)
    with assms Some im load show ?thesis
      by (auto simp: generate_def)
  next
    case (Inr model)
    show ?thesis
    proof (cases "instance_of model")
      case (Rejects e)
      with assms Some im Inr load show ?thesis
        by (auto simp: generate_def)
    next
      case (Fulfils engine)
      show ?thesis
      proof (cases "shared_reads env 0 \<noteq> int (g_counter data)")
        case True
        with assms Some im Inr Fulfils load show ?thesis
          by (auto simp: generate_def)
      next
        case False
        obtain chunks ending where e: "engine (chat_request data) = (chunks, ending)"
          by (cases "engine (chat_request data)") auto
        obtain thrown outp updates where
          fa: "for_await env data 0 chunks ending (replicate (length (g_idTokens data)) []) = (thrown, outp, updates)"
          by (cases "for_await env data 0 chunks ending (replicate (length (g_idTokens data)) [])") auto
        have upd: "\<forall>x\<in>set updates. status x = ''update''"
          using for_await_status [OF fa] by blast
        obtain rc completes where
          cl: "complete_loop (g_text data) (g_idTokens data) outp [0..<length outp] = (rc, completes)"
          by (cases "complete_loop (g_text data) (g_idTokens data) outp [0..<length outp]") auto
        have "completes = []"
          using complete_loop_posts [of "g_text data" "g_idTokens data" outp "[0..<length outp]"] cl by simp
        with assms Some im Inr Fulfils False e fa cl
        have "sent = pm @ updates \<or>
              (\<exists>x event. catch_stream data x = Inr event \<and> sent = pm @ updates @ [event])"
          by (auto simp: generate_def Let_def split: option.splits sum.splits)
        then show ?thesis
        proof
          assume "sent = pm @ updates"
          with assms(2) load upd show ?thesis by auto
        next
          assume "\<exists>x event. catch_stream data x = Inr event \<and> sent = pm @ updates @ [event]"
          then obtain x event where
            c: "catch_stream data x = Inr event" and s: "sent = pm @ updates @ [event]"
            by blast
          from catch_stream_status [OF c]
          have "status event \<in> {''interrupted'', ''exception''}" .
          with assms(2) s load upd show ?thesis by auto
        qed
      qed
    qed
  qed
qed

lemma handleMessage_status:
  assumes "handleMessage env msg w = (r, sent, w')" and "m \<in> set sent"
  shows "status m \<in> {''initiate'', ''progress'', ''done'', ''update'', ''interrupted'', ''exception''}"
proof (cases msg)
  case (Generate data)
  with assms generate_status show ?thesis by (simp add: handleMessage_def)
next
  case (InitializeModel name)
  obtain im pm wm where im: "initializeModel env name w = (im, pm, wm)"
    by (cases "initializeModel env name w") auto
  have load: "\<forall>x\<in>set pm. status x \<in> {''initiate'', ''progress'', ''done''}"
    using initializeModel_status [OF im] by blast
  with assms InitializeModel im show ?thesis
    by (auto simp: handleMessage_def split: sum.splits promise.splits)
qed (use assms in \<open>auto simp: handleMessage_def split: prod.splits\<close>)

text \<open>
  No message of the worker has the status \<open>ready\<close> or \<open>complete\<close>: nothing in the
  worker posts \<open>ready\<close>, and the loop that would post \<open>complete\<close> throws at its
  first round.
\<close>

lemma handleMessage_never_ready_or_complete:
  assumes "handleMessage env msg w = (r, sent, w')" and "m \<in> set sent"
  shows "status m \<noteq> ''ready'' \<and> status m \<noteq> ''complete''"
  using handleMessage_status [OF assms] by auto

text \<open>
  C2 (code defect). The claim: update and complete events carry the accumulated output
  after the prompt's length, and a stream that ends normally is followed by one complete
  event per candidate. On the request for two candidates with prompt \<open>def\<close> and a
  stream of two chunks that ends normally, the worker posts the trimmed updates and then
  throws in the final loop, at \<open>output[i].generated_text.substring\<close>: no complete
  event is posted.
\<close>

theorem generate_normal_end_posts_no_complete:
  "fst (generate (environment_of (Fulfils streaming_engine)) example_generate started_worker) =
     Threw (TypeError ''output[i].generated_text is undefined'') \<and>
   fst (snd (generate (environment_of (Fulfils streaming_engine)) example_generate started_worker)) =
     [MInitiate ''m'', MDone ''m'',
      MUpdate ''x'' ''T1'', MUpdate ''y'' ''T2'',
      MUpdate ''x1'' ''T1'', MUpdate ''y'' ''T2'']"
  by code_simp

text \<open>
  C4, as the spec states it, fails: when the load rejects, the exception event that
  \<open>_generate\<close> posts has the \<open>IException\<close> shape, with no \<open>idTokens\<close>, although the
  request has two candidate tokens.
\<close>

theorem generate_load_failure_carries_no_tokens:
  "g_idTokens example_generate = [''T1'', ''T2''] \<and>
   fst (snd (generate (environment_of (Rejects (JsError ''no WebGPU''))) example_generate started_worker)) =
     [MInitiate ''m'', MException None (Some ''no WebGPU'')] \<and>
   \<not> (\<exists>m \<in> set (fst (snd (generate (environment_of (Rejects (JsError ''no WebGPU'')))
                               example_generate started_worker))).
        carried_tokens m = Some (g_idTokens example_generate))"
  by code_simp

text \<open>
  C4, amended. For every generation request whose model load fails (the constructor
  throws or the instance rejects) on a worker whose buffer is initialised, \<open>_generate\<close>
  posts what the load itself posts (\<open>initiate\<close> and progress, for a model that was not
  registered) and then one exception event that carries the error message and no candidate
  tokens; it returns, and posts no update, complete or interrupted event.
\<close>

theorem generate_load_failure:
  assumes "sharedArray w = Some buffer" and "load_failure env (g_model data) w = Some e"
  shows "fst (generate env data w) = Returned \<and>
         fst (snd (generate env data w)) =
           fst (snd (initializeModel env (g_model data) w)) @ [MException None (message_or_json e)] \<and>
         filter (\<lambda>m. status m \<in> {''update'', ''complete'', ''interrupted'', ''ready''})
           (fst (snd (generate env data w))) = []"
proof -
  obtain im pm wm where im: "initializeModel env (g_model data) w = (im, pm, wm)"
    by (cases "initializeModel env (g_model data) w") auto
  have load: "\<forall>x\<in>set pm. status x \<in> {''initiate'', ''progress'', ''done''}"
    using initializeModel_status [OF im] by blast
  have gen: "generate env data w = (Returned, pm @ [MException None (message_or_json e)], wm)"
    using assms im
    by (auto simp: generate_def load_failure_def initializeModel_def Let_def
             split: option.splits creation.splits promise.splits)
  have "filter (\<lambda>m. status m \<in> {''update'', ''complete'', ''interrupted'', ''ready''}) pm = []"
    using load by (fastforce simp: filter_empty_conv)
  with gen im show ?thesis by simp
qed

theorem generate_load_failure_witness:
  "sharedArray started_worker = Some the_buffer \<and>
   load_failure (environment_of (Rejects (JsError ''no WebGPU''))) (g_model example_generate) started_worker =
     Some (JsError ''no WebGPU'') \<and>
   fst (generate (environment_of (Rejects (JsError ''no WebGPU''))) example_generate started_worker) = Returned \<and>
   fst (snd (generate (environment_of (Rejects (JsError ''no WebGPU''))) example_generate started_worker)) =
     [MInitiate ''m'', MException None (Some ''no WebGPU'')]"
proof -
  have h1: "sharedArray started_worker = Some the_buffer"
    by (simp add: started_worker_def initializeBuffer_def)
  have h2: "load_failure (environment_of (Rejects (JsError ''no WebGPU''))) (g_model example_generate)
              started_worker = Some (JsError ''no WebGPU'')"
    by (simp add: load_failure_def started_worker_def initializeBuffer_def new_worker_def
          environment_of_def)
  have h3: "fst (snd (initializeModel (environment_of (Rejects (JsError ''no WebGPU'')))
                   (g_model example_generate) started_worker)) = [MInitiate ''m'']"
    by code_simp
  show ?thesis
    using h1 h2 h3 generate_load_failure [OF h1 h2]
    by (simp add: message_or_json_def)
qed

text \<open>
  C6 (code defect). The claim: repeated \<open>initializeModel\<close> requests for one name give
  one \<open>initiate\<close>, one \<open>done\<close> and one \<open>ready\<close> event. Two requests for a model
  that loads give one \<open>initiate\<close> and one \<open>done\<close>, and no \<open>ready\<close>: the worker has
  no code that posts it (see \<open>handleMessage_never_ready_or_complete\<close>).
\<close>

theorem initializeModel_twice_posts_no_ready:
  "fst (handleMessages
          [(environment_of (Fulfils streaming_engine), InitializeModel ''m''),
           (environment_of (Fulfils streaming_engine), InitializeModel ''m'')]
          new_worker) =
     [MInitiate ''m'', MDone ''m'']"
  by code_simp


section \<open>Properties of the provider\<close>

subsection \<open>Tokens\<close>

declare string_of_nat.simps [simp del]

lemma digit_inj: "a < 10 \<Longrightarrow> b < 10 \<Longrightarrow> digit a = digit b \<Longrightarrow> a = b"
proof -
  assume a: "a < 10" and b: "b < 10" and eq: "digit a = digit b"
  from eq have "(of_char (digit a) :: nat) = of_char (digit b)" by simp
  with a b show "a = b" by (simp add: digit_def)
qed

lemma string_of_nat_nonempty: "string_of_nat n \<noteq> []"
  by (subst string_of_nat.simps) simp

lemma string_of_nat_inj: "string_of_nat n = string_of_nat m \<Longrightarrow> n = m"
proof (induction n arbitrary: m rule: string_of_nat.induct)
  case (1 n)
  show ?case
  proof (cases "n < 10")
    case small_n: True
    show ?thesis
    proof (cases "m < 10")
      case True
      with small_n "1.prems" show ?thesis
        by (simp add: string_of_nat.simps [of n] string_of_nat.simps [of m] digit_inj)
    next
      case False
      with small_n "1.prems" string_of_nat_nonempty [of "m div 10"] show ?thesis
        by (simp add: string_of_nat.simps [of n] string_of_nat.simps [of m])
    qed
  next
    case big_n: False
    show ?thesis
    proof (cases "m < 10")
      case True
      with big_n "1.prems" string_of_nat_nonempty [of "n div 10"] show ?thesis
        by (simp add: string_of_nat.simps [of n] string_of_nat.simps [of m])
    next
      case False
      with big_n "1.prems" have
        q: "string_of_nat (n div 10) = string_of_nat (m div 10)" and
        r: "digit (n mod 10) = digit (m mod 10)"
        by (simp_all add: string_of_nat.simps [of n] string_of_nat.simps [of m])
      from q big_n "1.IH" have "n div 10 = m div 10" by simp
      moreover from r have "n mod 10 = m mod 10" by (simp add: digit_inj)
      ultimately show ?thesis by (metis div_mult_mod_eq)
    qed
  qed
qed

lemma token_of_inj: "inj token_of"
  by (rule injI) (simp add: token_of_def string_of_nat_inj)

lemma mint_eq: "mint n k = (map token_of [Suc k..<Suc (k + n)], k + n)"
proof (induction n arbitrary: k)
  case 0
  then show ?case by simp
next
  case (Suc n)
  have "[Suc k..<Suc (k + Suc n)] = Suc k # [Suc (Suc k)..<Suc (Suc k + n)]"
    by (simp add: upt_conv_Cons)
  with Suc [of "Suc k"] show ?case
    by (simp add: token_of_def)
qed

lemma generates_append [simp]: "generates (xs @ ys) = generates xs @ generates ys"
  by (induction xs rule: generates.induct) simp_all

lemma run_append: "run (xs @ ys) c = run ys (run xs c)"
  by (induction xs arbitrary: c) simp_all

subsection \<open>What \<open>fetch\<close> does after its \<open>await\<close>\<close>

lemma fetch_continue_currentGeneration [simp]:
  "currentGeneration (fetch_continue model isText request c) = Suc (currentGeneration c)"
  by (simp add: fetch_continue_def abortPrevious_def tickWorker_def postMessage_def Let_def
           split: prod.splits)

lemma fetch_continue_tokenCounter [simp]:
  "tokenCounter (fetch_continue model isText request c) = tokenCounter c + nat (generateN (settings c))"
  by (simp add: fetch_continue_def abortPrevious_def tickWorker_def postMessage_def Let_def mint_eq
           split: prod.splits)

lemma fetch_continue_fetched [simp]:
  "fetched (fetch_continue model isText request c) =
     fetched c @ [map placeholder (map token_of [Suc (tokenCounter c)..<Suc (tokenCounter c + nat (generateN (settings c)))])]"
  by (simp add: fetch_continue_def abortPrevious_def tickWorker_def postMessage_def Let_def mint_eq
           split: prod.splits)

lemma fetch_continue_posted:
  "\<exists>data. posted (fetch_continue model isText request c) = posted c @ [Generate data] \<and>
          g_counter data = Suc (currentGeneration c) \<and>
          g_idTokens data = map token_of [Suc (tokenCounter c)..<Suc (tokenCounter c + nat (generateN (settings c)))] \<and>
          g_max_gen_len data = None \<and>
          g_model data = model"
  by (simp add: fetch_continue_def abortPrevious_def tickWorker_def postMessage_def Let_def mint_eq
           split: prod.splits)

lemma fetch_continue_store [simp]:
  "delegates (fetch_continue model isText request c) = delegates c"
  "nextDelegate (fetch_continue model isText request c) = nextDelegate c"
  "streamPromises (fetch_continue model isText request c) = Map.empty"
  "ready (fetch_continue model isText request c) = ready c"
  "readyDelegates (fetch_continue model isText request c) = readyDelegates c"
  "settings (fetch_continue model isText request c) = settings c"
  "jobs (fetch_continue model isText request c) = jobs c"
  by (simp_all add: fetch_continue_def abortPrevious_def tickWorker_def postMessage_def Let_def
           split: prod.splits)

lemma fetch_continue_sharedArray0 [simp]:
  "sharedArray0 (fetch_continue model isText request c) = word_of_nat (Suc (currentGeneration c))"
  by (simp add: fetch_continue_def abortPrevious_def tickWorker_def postMessage_def Let_def
           split: prod.splits)

subsection \<open>Frames of the other operations\<close>

lemma switchModel_frame [simp]:
  "currentGeneration (switchModel m t c) = currentGeneration c"
  "tokenCounter (switchModel m t c) = tokenCounter c"
  "fetched (switchModel m t c) = fetched c"
  "generates (posted (switchModel m t c)) = generates (posted c)"
  "sharedArray0 (switchModel m t c) = sharedArray0 c"
  "delegates (switchModel m t c) = delegates c"
  "nextDelegate (switchModel m t c) = nextDelegate c"
  "streamPromises (switchModel m t c) = streamPromises c"
  "ready (switchModel m t c) = ready c"
  "settings (switchModel m t c) = settings c"
  by (simp_all add: switchModel_def postMessage_def Let_def split: option.splits)

lemma configure_continue_frame [simp]:
  "currentGeneration (configure_continue c) = currentGeneration c"
  "tokenCounter (configure_continue c) = tokenCounter c"
  "fetched (configure_continue c) = fetched c"
  "generates (posted (configure_continue c)) = generates (posted c)"
  "sharedArray0 (configure_continue c) = sharedArray0 c"
  "delegates (configure_continue c) = delegates c"
  "nextDelegate (configure_continue c) = nextDelegate c"
  "streamPromises (configure_continue c) = streamPromises c"
  "ready (configure_continue c) = ready c"
  "settings (configure_continue c) = settings c"
  by (simp_all add: configure_continue_def Let_def)

lemma configure_frame [simp]:
  "currentGeneration (configure s c) = currentGeneration c"
  "tokenCounter (configure s c) = tokenCounter c"
  "fetched (configure s c) = fetched c"
  "posted (configure s c) = posted c"
  "sharedArray0 (configure s c) = sharedArray0 c"
  "delegates (configure s c) = delegates c"
  "nextDelegate (configure s c) = nextDelegate c"
  "streamPromises (configure s c) = streamPromises c"
  "ready (configure s c) = ready c"
  by (simp_all add: configure_def Let_def)

lemma fetch_frame [simp]:
  "currentGeneration (snd (fetch request c)) = currentGeneration c"
  "tokenCounter (snd (fetch request c)) = tokenCounter c"
  "fetched (snd (fetch request c)) = fetched c"
  "posted (snd (fetch request c)) = posted c"
  "sharedArray0 (snd (fetch request c)) = sharedArray0 c"
  "delegates (snd (fetch request c)) = delegates c"
  "nextDelegate (snd (fetch request c)) = nextDelegate c"
  "streamPromises (snd (fetch request c)) = streamPromises c"
  "ready (snd (fetch request c)) = ready c"
  by (simp_all add: fetch_def split: prod.splits property.splits settlement.splits)

lemma msgWorkerStarted_frame [simp]:
  "currentGeneration (msgWorkerStarted c) = currentGeneration c"
  "tokenCounter (msgWorkerStarted c) = tokenCounter c"
  "fetched (msgWorkerStarted c) = fetched c"
  "posted (msgWorkerStarted c) = posted c"
  "sharedArray0 (msgWorkerStarted c) = sharedArray0 c"
  "delegates (msgWorkerStarted c) = delegates c"
  "nextDelegate (msgWorkerStarted c) = nextDelegate c"
  "streamPromises (msgWorkerStarted c) = streamPromises c"
  "ready (msgWorkerStarted c) = ready c"
  by (simp_all add: msgWorkerStarted_def)

lemma msgInitiate_frame [simp]:
  "currentGeneration (msgInitiate m c) = currentGeneration c"
  "tokenCounter (msgInitiate m c) = tokenCounter c"
  "fetched (msgInitiate m c) = fetched c"
  "posted (msgInitiate m c) = posted c"
  "sharedArray0 (msgInitiate m c) = sharedArray0 c"
  "delegates (msgInitiate m c) = delegates c"
  "nextDelegate (msgInitiate m c) = nextDelegate c"
  "streamPromises (msgInitiate m c) = streamPromises c"
  "ready (msgInitiate m c) = (ready c)(m \<mapsto> nextReady c)"
  by (simp_all add: msgInitiate_def Let_def split: property.splits)

lemma msgProgress_frame [simp]:
  "currentGeneration (msgProgress m r c) = currentGeneration c"
  "tokenCounter (msgProgress m r c) = tokenCounter c"
  "fetched (msgProgress m r c) = fetched c"
  "posted (msgProgress m r c) = posted c"
  "sharedArray0 (msgProgress m r c) = sharedArray0 c"
  "delegates (msgProgress m r c) = delegates c"
  "nextDelegate (msgProgress m r c) = nextDelegate c"
  "streamPromises (msgProgress m r c) = streamPromises c"
  "ready (msgProgress m r c) = ready c"
  by (simp_all add: msgProgress_def)

lemma msgDone_frame [simp]:
  "currentGeneration (msgDone m c) = currentGeneration c"
  "tokenCounter (msgDone m c) = tokenCounter c"
  "fetched (msgDone m c) = fetched c"
  "posted (msgDone m c) = posted c"
  "sharedArray0 (msgDone m c) = sharedArray0 c"
  "delegates (msgDone m c) = delegates c"
  "nextDelegate (msgDone m c) = nextDelegate c"
  "streamPromises (msgDone m c) = streamPromises c"
  "ready (msgDone m c) = ready c"
  by (simp_all add: msgDone_def)

lemma msgReady_frame [simp]:
  "currentGeneration (snd (msgReady m c)) = currentGeneration c"
  "tokenCounter (snd (msgReady m c)) = tokenCounter c"
  "fetched (snd (msgReady m c)) = fetched c"
  "posted (snd (msgReady m c)) = posted c"
  "sharedArray0 (snd (msgReady m c)) = sharedArray0 c"
  "delegates (snd (msgReady m c)) = delegates c"
  "nextDelegate (snd (msgReady m c)) = nextDelegate c"
  "streamPromises (snd (msgReady m c)) = streamPromises c"
  "ready (snd (msgReady m c)) = ready c"
  by (simp_all add: msgReady_def Let_def split: property.splits settlement.splits)

lemma msgException_frame [simp]:
  "currentGeneration (msgException ts e c) = currentGeneration c"
  "tokenCounter (msgException ts e c) = tokenCounter c"
  "fetched (msgException ts e c) = fetched c"
  "posted (msgException ts e c) = posted c"
  "sharedArray0 (msgException ts e c) = sharedArray0 c"
  "delegates (msgException ts e c) = delegates c"
  "nextDelegate (msgException ts e c) = nextDelegate c"
  "streamPromises (msgException ts e c) = streamPromises c"
  "ready (msgException ts e c) = ready c"
  by (simp_all add: msgException_def)

lemma msgUpdate_frame [simp]:
  "currentGeneration (msgUpdate out tok c) = currentGeneration c"
  "tokenCounter (msgUpdate out tok c) = tokenCounter c"
  "fetched (msgUpdate out tok c) = fetched c"
  "posted (msgUpdate out tok c) = posted c"
  "sharedArray0 (msgUpdate out tok c) = word_of_nat (currentGeneration c)"
  "nextDelegate (msgUpdate out tok c) = nextDelegate c"
  "streamPromises (msgUpdate out tok c) = streamPromises c"
  "ready (msgUpdate out tok c) = ready c"
  by (simp_all add: msgUpdate_def tickWorker_def Let_def split: option.splits)

lemma msgComplete_frame [simp]:
  "currentGeneration (msgComplete out tok c) = currentGeneration c"
  "tokenCounter (msgComplete out tok c) = tokenCounter c"
  "fetched (msgComplete out tok c) = fetched c"
  "posted (msgComplete out tok c) = posted c"
  "sharedArray0 (msgComplete out tok c) = sharedArray0 c"
  "nextDelegate (msgComplete out tok c) = nextDelegate c"
  "streamPromises (msgComplete out tok c) = (streamPromises c)(tok := None)"
  "ready (msgComplete out tok c) = ready c"
  by (simp_all add: msgComplete_def Let_def split: option.splits)

lemma msgInterrupted_frame [simp]:
  "currentGeneration (msgInterrupted toks c) = currentGeneration c"
  "tokenCounter (msgInterrupted toks c) = tokenCounter c"
  "fetched (msgInterrupted toks c) = fetched c"
  "posted (msgInterrupted toks c) = posted c"
  "sharedArray0 (msgInterrupted toks c) = sharedArray0 c"
  "nextDelegate (msgInterrupted toks c) = nextDelegate c"
  "ready (msgInterrupted toks c) = ready c"
  by (induction toks arbitrary: c; simp add: Let_def split: option.splits)+

lemma new_stream_delegate_frame [simp]:
  "currentGeneration (snd (new_stream_delegate tok c)) = currentGeneration c"
  "tokenCounter (snd (new_stream_delegate tok c)) = tokenCounter c"
  "fetched (snd (new_stream_delegate tok c)) = fetched c"
  "posted (snd (new_stream_delegate tok c)) = posted c"
  "sharedArray0 (snd (new_stream_delegate tok c)) = sharedArray0 c"
  "ready (snd (new_stream_delegate tok c)) = ready c"
  by (simp_all add: new_stream_delegate_def Let_def)

text \<open>A microtask either does nothing or runs the first job on the provider without it.\<close>

lemma microtask_cases:
  obtains (idle) "jobs c = []" and "microtask c = c"
  | (buffer) js where "jobs c = InitializeBufferJob # js"
      and "microtask c = postMessage (InitializeBuffer the_buffer) (c\<lparr>jobs := js\<rparr>)"
  | (configure) js where "jobs c = ConfigureJob # js"
      and "microtask c = configure_continue (c\<lparr>jobs := js\<rparr>)"
  | (fetch) model isText request js where "jobs c = FetchJob model isText request # js"
      and "microtask c = fetch_continue model isText request (c\<lparr>jobs := js\<rparr>)"
proof (cases "jobs c")
  case Nil
  then show ?thesis using idle by (simp add: microtask_def)
next
  case (Cons j js)
  then show ?thesis
    using buffer configure fetch
    by (cases j) (simp_all add: microtask_def run_job_def)
qed

lemma microtask_ready [simp]: "ready (microtask c) = ready c"
  by (cases c rule: microtask_cases) (simp_all add: postMessage_def)

subsection \<open>The counters\<close>

lemma counters_agree_new_provider: "counters_agree new_provider"
  by (simp add: counters_agree_def new_provider_def)

lemma counters_agree_cong:
  assumes "counters_agree c"
    and "currentGeneration c' = currentGeneration c" and "fetched c' = fetched c"
    and "sharedArray0 c' = sharedArray0 c"
    and "generates (posted c') = generates (posted c)" and "tokenCounter c' = tokenCounter c"
  shows "counters_agree c'"
  using assms by (simp add: counters_agree_def)

lemma counters_agree_fetch_continue:
  assumes "counters_agree c"
  shows "counters_agree (fetch_continue model isText request c)"
proof -
  obtain data where
    p: "posted (fetch_continue model isText request c) = posted c @ [Generate data]" and
    k: "g_counter data = Suc (currentGeneration c)" and
    t: "g_idTokens data =
          map token_of [Suc (tokenCounter c)..<Suc (tokenCounter c + nat (generateN (settings c)))]"
    using fetch_continue_posted [of model isText request c] by blast
  have "[1..<Suc (tokenCounter c)] @ [Suc (tokenCounter c)..<Suc (tokenCounter c) + nat (generateN (settings c))] =
        [1..<Suc (tokenCounter c) + nat (generateN (settings c))]"
    by (rule upt_add_eq_append [symmetric]) simp
  then have "map token_of [1..<Suc (tokenCounter c)] @
             map token_of [Suc (tokenCounter c)..<Suc (tokenCounter c + nat (generateN (settings c)))] =
             map token_of [1..<Suc (tokenCounter c + nat (generateN (settings c)))]"
    by (simp flip: map_append)
  with assms p k t show ?thesis
    by (simp add: counters_agree_def)
qed

lemma counters_agree_microtask: "counters_agree c \<Longrightarrow> counters_agree (microtask c)"
proof (cases c rule: microtask_cases)
  case idle
  assume "counters_agree c"
  with idle show ?thesis by simp
next
  case (buffer js)
  assume "counters_agree c"
  with buffer show ?thesis by (simp add: counters_agree_def postMessage_def)
next
  case (configure js)
  assume "counters_agree c"
  with configure show ?thesis by (simp add: counters_agree_def)
next
  case (fetch model isText request js)
  assume "counters_agree c"
  then have "counters_agree (c\<lparr>jobs := js\<rparr>)" by (simp add: counters_agree_def)
  with fetch show ?thesis by (simp add: counters_agree_fetch_continue)
qed

lemma counters_agree_message:
  "counters_agree c \<Longrightarrow> counters_agree (snd (onMessageReceived data c))"
  by (cases data) (simp_all add: onMessageReceived_def counters_agree_def)

lemma counters_agree_step: "counters_agree c \<Longrightarrow> counters_agree (step ev c)"
proof (cases ev)
  case (Message data)
  assume "counters_agree c"
  with Message show ?thesis by (simp add: step_def counters_agree_message)
next
  case Microtask
  assume "counters_agree c"
  with Microtask show ?thesis by (simp add: step_def counters_agree_microtask)
qed (simp_all add: step_def counters_agree_def)

lemma counters_agree_run: "counters_agree c \<Longrightarrow> counters_agree (run evs c)"
  by (induction evs arbitrary: c) (simp_all add: counters_agree_step)

subsection \<open>The delegates\<close>

lemma resolve_other [simp]: "d \<noteq> d' \<Longrightarrow> resolve d' v store d = store d"
  by (simp add: resolve_def split: settlement.splits)

lemma reject_other [simp]: "d \<noteq> d' \<Longrightarrow> reject d' store d = store d"
  by (simp add: reject_def split: settlement.splits)

lemma reject_pending [simp]: "store d = Pending \<Longrightarrow> reject d store d = Rejected"
  by (simp add: reject_def)

lemma reject_rejected [simp]: "store d = Rejected \<Longrightarrow> reject d' store d = Rejected"
  by (simp add: reject_def split: settlement.splits)

lemma detached_empty: "streamPromises c = Map.empty \<Longrightarrow> detached n c = (n \<le> nextDelegate c)"
  by (simp add: detached_def)

lemma detached_cong:
  "detached n c \<Longrightarrow> nextDelegate c' = nextDelegate c \<Longrightarrow> streamPromises c' = streamPromises c \<Longrightarrow>
   detached n c'"
  by (simp add: detached_def)

lemma detached_delete:
  "detached n c \<Longrightarrow> nextDelegate c' = nextDelegate c \<Longrightarrow>
   streamPromises c' = (streamPromises c)(tok := None) \<Longrightarrow> detached n c'"
  by (auto simp: detached_def ran_def split: if_splits)

lemma detached_lookup: "detached n c \<Longrightarrow> streamPromises c tok = Some d \<Longrightarrow> n \<le> d"
  by (auto simp: detached_def ran_def)

lemma msgInterrupted_detached:
  "detached n c \<Longrightarrow> d < n \<Longrightarrow>
   detached n (msgInterrupted toks c) \<and> delegates (msgInterrupted toks c) d = delegates c d"
proof (induction toks arbitrary: c)
  case Nil
  then show ?case by simp
next
  case (Cons tok toks)
  let ?c1 = "case streamPromises c tok of
               None \<Rightarrow> c
             | Some delegate \<Rightarrow> c\<lparr>delegates := reject delegate (delegates c)\<rparr>"
  let ?c2 = "?c1\<lparr>streamPromises := (streamPromises ?c1)(tok := None)\<rparr>"
  have same: "delegates ?c2 d = delegates c d"
    using Cons.prems detached_lookup [of n c tok]
    by (auto split: option.splits)
  have "detached n ?c2"
    using Cons.prems(1) by (rule detached_delete [where tok = tok]) (simp_all split: option.splits)
  from Cons.IH [OF this Cons.prems(2)] same show ?case
    by (simp add: Let_def)
qed

lemma new_stream_delegate_detached:
  assumes "detached n c" and "d < n"
  shows "detached n (snd (new_stream_delegate tok c)) \<and>
         delegates (snd (new_stream_delegate tok c)) d = delegates c d"
proof -
  from assms have le: "n \<le> nextDelegate c" and old: "\<forall>x \<in> ran (streamPromises c). n \<le> x"
    by (simp_all add: detached_def)
  have "\<forall>x \<in> ran ((streamPromises c)(tok \<mapsto> nextDelegate c)). n \<le> x"
    using le old by (auto simp: ran_def split: if_splits)
  with le assms(2) show ?thesis
    by (simp add: detached_def new_stream_delegate_def Let_def)
qed

lemma msgUpdate_detached:
  assumes "detached n c" and "d < n"
  shows "detached n (msgUpdate out tok c) \<and> delegates (msgUpdate out tok c) d = delegates c d"
proof -
  have "detached n (msgUpdate out tok c)"
    using assms(1) by (rule detached_cong) simp_all
  moreover have "delegates (msgUpdate out tok c) d = delegates c d"
    using assms detached_lookup [of n c tok]
    by (auto simp: msgUpdate_def tickWorker_def Let_def split: option.splits)
  ultimately show ?thesis by simp
qed

lemma msgComplete_detached:
  assumes "detached n c" and "d < n"
  shows "detached n (msgComplete out tok c) \<and> delegates (msgComplete out tok c) d = delegates c d"
proof -
  have "detached n (msgComplete out tok c)"
    using assms(1) by (rule detached_delete [where tok = tok]) simp_all
  moreover have "delegates (msgComplete out tok c) d = delegates c d"
    using assms detached_lookup [of n c tok]
    by (auto simp: msgComplete_def Let_def split: option.splits)
  ultimately show ?thesis by simp
qed

lemma message_detached:
  assumes "detached n c" and "d < n"
  shows "detached n (snd (onMessageReceived data c)) \<and>
         delegates (snd (onMessageReceived data c)) d = delegates c d"
proof (cases data)
  case (MUpdate out tok)
  with msgUpdate_detached [OF assms] show ?thesis
    by (simp add: onMessageReceived_def)
next
  case (MComplete out tok)
  with msgComplete_detached [OF assms] show ?thesis
    by (simp add: onMessageReceived_def)
next
  case (MInterrupted toks e)
  with msgInterrupted_detached [OF assms] show ?thesis
    by (simp add: onMessageReceived_def)
qed (use assms in \<open>simp_all add: onMessageReceived_def detached_def\<close>)

lemma microtask_detached:
  assumes "detached n c"
  shows "detached n (microtask c) \<and> delegates (microtask c) = delegates c"
proof (cases c rule: microtask_cases)
  case idle
  with assms show ?thesis by simp
next
  case (buffer js)
  with assms show ?thesis by (simp add: detached_def postMessage_def)
next
  case (configure js)
  with assms show ?thesis by (simp add: detached_def)
next
  case (fetch model isText request js)
  with assms show ?thesis by (simp add: detached_def)
qed

lemma step_detached:
  assumes "detached n c" and "d < n"
  shows "detached n (step ev c) \<and> delegates (step ev c) d = delegates c d"
proof (cases ev)
  case (StreamRegisters tok)
  with new_stream_delegate_detached [OF assms] show ?thesis by (simp add: step_def)
next
  case (Message data)
  with message_detached [OF assms] show ?thesis by (simp add: step_def)
next
  case Microtask
  with microtask_detached [OF assms(1)] show ?thesis by (simp add: step_def)
qed (use assms in \<open>simp_all add: step_def detached_def\<close>)

lemma run_detached:
  "detached n c \<Longrightarrow> d < n \<Longrightarrow> delegates (run evs c) d = delegates c d"
proof (induction evs arbitrary: c)
  case Nil
  then show ?case by simp
next
  case (Cons ev evs)
  from step_detached [OF Cons.prems, of ev]
  have "detached n (step ev c)" and "delegates (step ev c) d = delegates c d" by simp_all
  with Cons.IH [of "step ev c"] Cons.prems(2) show ?case by simp
qed

text \<open>
  The only event that completes a \<open>fetch\<close> is the microtask that runs its
  continuation.
\<close>

lemma step_completes_fetch:
  assumes "length (fetched c) < length (fetched (step ev c))"
  obtains model isText request js where
    "ev = Microtask" and "jobs c = FetchJob model isText request # js" and
    "step ev c = fetch_continue model isText request (c\<lparr>jobs := js\<rparr>)"
proof (cases ev)
  case (Fetch request)
  with assms show ?thesis by (simp add: step_def)
next
  case (ConfigureWith s)
  with assms show ?thesis by (simp add: step_def)
next
  case (StreamRegisters tok)
  with assms show ?thesis by (simp add: step_def)
next
  case (Message data)
  with assms show ?thesis by (cases data) (simp_all add: step_def onMessageReceived_def)
next
  case Microtask
  show ?thesis
  proof (cases c rule: microtask_cases)
    case idle
    with assms Microtask show ?thesis by (simp add: step_def)
  next
    case (buffer js)
    with assms Microtask show ?thesis by (simp add: step_def postMessage_def)
  next
    case (configure js)
    with assms Microtask show ?thesis by (simp add: step_def)
  next
    case (fetch model isText request js)
    with Microtask that show ?thesis by (simp add: step_def)
  qed
qed

text \<open>
  C1, amended. Whenever an event completes a \<open>fetch\<close> (the call resolves with its
  items, whether it had found its readiness promise resolved or had waited for
  \<open>ready\<close>), the map of stream delegates is empty after it, and every delegate created
  before it (in particular the one of a pull that is pending on a token of the previous
  request) keeps its state whatever events follow: such a pull gets no further value and
  no rejection. Events of the superseded request can reach a consumer only through a
  delegate stored after that \<open>fetch\<close>.
\<close>

theorem delegates_before_fetch_never_settle:
  assumes "length (fetched c) < length (fetched (step ev c))" and "d < nextDelegate c"
  shows "streamPromises (step ev c) = Map.empty \<and>
         delegates (run evs (step ev c)) d = delegates c d \<and>
         stream_settled (Awaiting d) (run evs (step ev c)) = stream_settled (Awaiting d) c"
proof -
  from assms(1) obtain model isText request js where
    s: "step ev c = fetch_continue model isText request (c\<lparr>jobs := js\<rparr>)"
    by (rule step_completes_fetch)
  then have empty: "streamPromises (step ev c) = Map.empty"
    and same: "delegates (step ev c) = delegates c"
    and "nextDelegate (step ev c) = nextDelegate c"
    by simp_all
  then have "detached (nextDelegate c) (step ev c)"
    by (simp add: detached_empty)
  from run_detached [OF this assms(2), of evs] same
  have "delegates (run evs (step ev c)) d = delegates c d" by simp
  with empty show ?thesis by (simp add: stream_settled_def)
qed

text \<open>
  A pull is pending on \<open>T1\<close>; a second \<open>fetch\<close> waits for its model and completes
  in the microtask after \<open>ready\<close>. The pull stays pending through a late update and
  the interruption of the first request.
\<close>

theorem delegates_before_fetch_never_settle_witness:
  "length (fetched resumed_provider) < length (fetched (step Microtask resumed_provider)) \<and>
   0 < nextDelegate resumed_provider \<and>
   streamPromises resumed_provider ''T1'' = Some 0 \<and>
   stream_settled (Awaiting 0)
     (run [Message (MUpdate ''stale'' ''T1''),
           Message (MInterrupted [''T1'', ''T2''] (Some ''Execution interrupted''))]
        (step Microtask resumed_provider)) = (Waits, Awaiting 0)"
proof -
  let ?evs = "[Message (MUpdate ''stale'' ''T1''),
               Message (MInterrupted [''T1'', ''T2''] (Some ''Execution interrupted''))]"
  have h1: "length (fetched resumed_provider) < length (fetched (step Microtask resumed_provider))"
    by code_simp
  have h2: "0 < nextDelegate resumed_provider" by code_simp
  have h3: "streamPromises resumed_provider ''T1'' = Some 0" by code_simp
  have h4: "stream_settled (Awaiting 0) resumed_provider = (Waits, Awaiting 0)" by code_simp
  from delegates_before_fetch_never_settle [OF h1 h2, of ?evs]
  have "stream_settled (Awaiting 0) (run ?evs (step Microtask resumed_provider)) =
        stream_settled (Awaiting 0) resumed_provider"
    by blast
  with h4 have "stream_settled (Awaiting 0) (run ?evs (step Microtask resumed_provider)) =
        (Waits, Awaiting 0)"
    by (simp only:)
  with h1 h2 h3 show ?thesis
    by (simp only: simp_thms)
qed

text \<open>
  C1, as the spec states it, fails. After two \<open>fetch\<close> calls the tokens \<open>T1\<close> and
  \<open>T2\<close> belong to the superseded request. A \<open>stream('T1')\<close> generator that runs
  its first \<open>next()\<close> only now stores its delegate in the new map, and an update event
  of the superseded request that arrives late resolves it: the consumer gets the stale
  text.
\<close>

theorem stale_update_reaches_late_pull:
  "map g_idTokens
     (generates (posted (run [Fetch markdown_request, Microtask, Fetch markdown_request, Microtask]
                           ready_provider))) =
     [[''T1'', ''T2''], [''T3'', ''T4'']] \<and>
   (let c2 = run [Fetch markdown_request, Microtask, Fetch markdown_request, Microtask] ready_provider;
        (st, c3) = stream_next ''T1'' Start c2;
        c4 = snd (onMessageReceived (MUpdate ''stale'' ''T1'') c3)
    in fst (stream_settled st c4) =
         Yields \<lparr>is_done = False,
                 response = \<lparr>insertText = ''stale'', isIncomplete = None, token = None\<rparr>\<rparr>)"
  by code_simp

subsection \<open>Interruption\<close>

lemma msgInterrupted_rejected_stays:
  "delegates c d = Rejected \<Longrightarrow> delegates (msgInterrupted toks c) d = Rejected"
  by (induction toks arbitrary: c) (auto simp: Let_def split: option.splits)

lemma msgInterrupted_removes:
  "tok \<in> set toks \<Longrightarrow> streamPromises (msgInterrupted toks c) tok = None"
proof (induction toks arbitrary: c)
  case Nil
  then show ?case by simp
next
  case (Cons t toks)
  have absent: "streamPromises c tok = None \<Longrightarrow> streamPromises (msgInterrupted ts c) tok = None" for ts c
    by (induction ts arbitrary: c) (auto simp: Let_def split: option.splits)
  show ?case
  proof (cases "t = tok")
    case True
    then show ?thesis by (auto simp: Let_def intro!: absent split: option.splits)
  next
    case False
    with Cons show ?thesis by (simp add: Let_def)
  qed
qed

lemma msgInterrupted_rejects:
  "tok \<in> set toks \<Longrightarrow> streamPromises c tok = Some d \<Longrightarrow> delegates c d = Pending \<Longrightarrow>
   delegates (msgInterrupted toks c) d = Rejected"
proof (induction toks arbitrary: c)
  case Nil
  then show ?case by simp
next
  case (Cons t toks)
  show ?case
  proof (cases "t = tok")
    case True
    with Cons.prems show ?thesis
      by (auto simp: Let_def intro!: msgInterrupted_rejected_stays)
  next
    case False
    let ?c1 = "case streamPromises c t of
                 None \<Rightarrow> c
               | Some delegate \<Rightarrow> c\<lparr>delegates := reject delegate (delegates c)\<rparr>"
    let ?c2 = "?c1\<lparr>streamPromises := (streamPromises ?c1)(t := None)\<rparr>"
    have sp: "streamPromises ?c2 tok = Some d"
      using False Cons.prems by (simp split: option.splits)
    have "delegates ?c2 d = Pending \<or> delegates ?c2 d = Rejected"
      using Cons.prems by (auto simp: reject_def split: option.splits settlement.splits)
    then show ?thesis
    proof
      assume "delegates ?c2 d = Pending"
      with Cons.IH [of ?c2] sp False Cons.prems(1) show ?thesis by (simp add: Let_def)
    next
      assume "delegates ?c2 d = Rejected"
      then show ?thesis
        using msgInterrupted_rejected_stays [of ?c2 d toks] by (simp add: Let_def)
    qed
  qed
qed

text \<open>
  C8, as the spec states it, fails. The worker reports an interruption when it reads
  an epoch other than the request's, that is after a later \<open>fetch\<close> has bumped it;
  that \<open>fetch\<close> has replaced the map of delegates too, so the interrupted event finds
  no delegate under the token: the pull that is pending on \<open>T1\<close> is not rejected, it
  stays pending.
\<close>

theorem interrupted_after_fetch_leaves_pull_pending:
  "fst (snd (generate superseded_environment example_generate started_worker)) =
     [MInitiate ''m'', MDone ''m'', MInterrupted [''T1'', ''T2''] (Some ''Execution interrupted'')] \<and>
   streamPromises pulling_provider ''T1'' = Some 0 \<and>
   stream_settled (Awaiting 0) pulling_provider = (Waits, Awaiting 0) \<and>
   (let c = run [Fetch markdown_request, Microtask] pulling_provider;
        c' = snd (onMessageReceived (MInterrupted [''T1'', ''T2''] (Some ''Execution interrupted'')) c)
    in currentGeneration c = 2 \<and>
       delegates c' 0 = Pending \<and>
       stream_settled (Awaiting 0) c' = (Waits, Awaiting 0))"
  by code_simp

text \<open>
  C8, amended. If a pull is pending on a token and its delegate is still the one stored
  under the token (no \<open>fetch\<close> has completed since the pull was issued), and an
  interrupted event lists the token, then the delegate is rejected, not resolved, the
  token's entry is removed, and the consumer's \<open>next()\<close> fails; the generator has ended
  with the rejection, so any later \<open>next()\<close> reports the end of the stream and stores
  no delegate.
\<close>

theorem interrupted_fails_pending_pull:
  assumes "streamPromises c tok = Some d" and "delegates c d = Pending" and "tok \<in> set idTokens"
  shows "stream_settled (Awaiting d) c = (Waits, Awaiting d) \<and>
         delegates (snd (onMessageReceived (MInterrupted idTokens e) c)) d = Rejected \<and>
         streamPromises (snd (onMessageReceived (MInterrupted idTokens e) c)) tok = None \<and>
         stream_settled (Awaiting d) (snd (onMessageReceived (MInterrupted idTokens e) c)) = (Fails, Finished) \<and>
         stream_next tok Finished c' = (Finished, c') \<and>
         stream_settled Finished c' = (Ends, Finished)"
  using assms msgInterrupted_rejects [of tok idTokens c d] msgInterrupted_removes [of tok idTokens c]
  by (simp add: onMessageReceived_def stream_settled_def stream_next_def)

text \<open>The pull pending on \<open>T1\<close> fails when the interruption comes before any other \<open>fetch\<close>.\<close>

theorem interrupted_fails_pending_pull_witness:
  "streamPromises pulling_provider ''T1'' = Some 0 \<and>
   delegates pulling_provider 0 = Pending \<and>
   stream_settled (Awaiting 0)
     (snd (onMessageReceived (MInterrupted [''T1'', ''T2''] (Some ''Execution interrupted'')) pulling_provider)) =
     (Fails, Finished)"
proof -
  have h1: "streamPromises pulling_provider ''T1'' = Some 0" by code_simp
  have h2: "delegates pulling_provider 0 = Pending" by code_simp
  have h3: "''T1'' \<in> set [''T1'', ''T2'']" by simp
  from interrupted_fails_pending_pull [OF h1 h2 h3] h1 h2 show ?thesis by simp
qed

subsection \<open>Readiness\<close>

lemma step_ready: "ev \<noteq> Message (MInitiate m) \<Longrightarrow> ready (step ev c) m = ready c m"
proof (cases ev)
  case (Message data)
  assume "ev \<noteq> Message (MInitiate m)"
  with Message show ?thesis
    by (cases data) (auto simp: step_def onMessageReceived_def)
qed (simp_all add: step_def)

lemma run_ready: "Message (MInitiate m) \<notin> set evs \<Longrightarrow> ready (run evs c) m = ready c m"
  by (induction evs arbitrary: c) (auto simp: step_ready)

lemma fetch_of_undefined_entry_throws:
  assumes "ready_lookup c (snd (selected_model request c)) = Undefined"
  shows "fetch request c = (FetchThrows (TypeError ''this._ready[model] is undefined''), c)"
  using assms by (cases "selected_model request c") (simp add: fetch_def)

text \<open>
  C9, as the spec states it, fails. With a code model named \<open>constructor\<close>, for which
  no \<open>initiate\<close> event has come, the read of \<open>_ready\<close> finds the property that every
  object inherits; it has no \<open>promise\<close>, so the \<open>await\<close> continues: the \<open>fetch\<close>
  bumps the epoch and posts its generate message.
\<close>

theorem fetch_of_inherited_name_completes:
  "fst (fetch python_request
          (run [Message MWorkerStarted, Microtask, ConfigureWith constructor_settings, Microtask]
             new_provider)) = FetchAwaits \<and>
   (let c = run [Message MWorkerStarted, Microtask, ConfigureWith constructor_settings, Microtask,
                 Fetch python_request, Microtask] new_provider
    in currentGeneration c = 1 \<and>
       map g_model (generates (posted c)) = [''constructor''] \<and>
       length (fetched c) = 1)"
  by code_simp

text \<open>
  C9, amended. A \<open>fetch\<close> whose selected model has never been announced by an
  \<open>initiate\<close> event, and whose name is not one that the readiness record inherits (a
  property of \<open>Object.prototype\<close> such as \<open>constructor\<close> or \<open>__proto__\<close>, or of a
  delegate), throws at the readiness lookup and leaves the provider as it was: the
  epoch is not bumped, the map of stream delegates is not replaced, nothing is posted.
  The default code model \<open>none\<close> is such a name. The provider is any state that events
  lead to from the new one.
\<close>

theorem fetch_of_uninitiated_model_throws:
  assumes "snd (selected_model request (run evs new_provider)) = model"
    and "Message (MInitiate model) \<notin> set evs"
    and "model \<notin> set Object_prototype_keys" and "model \<notin> set PromiseDelegate_keys"
  shows "fetch request (run evs new_provider) =
           (FetchThrows (TypeError ''this._ready[model] is undefined''), run evs new_provider)"
proof -
  have "ready (run evs new_provider) model = ready new_provider model"
    using assms(2) by (rule run_ready)
  then have "ready (run evs new_provider) model = None"
    by (simp add: new_provider_def)
  with assms(3,4) have "ready_lookup (run evs new_provider) model = Undefined"
    by (simp add: ready_lookup_def)
  with assms(1) show ?thesis
    by (simp add: fetch_of_undefined_entry_throws)
qed

text \<open>The default code model is never announced: a request in a Python file throws.\<close>

theorem fetch_of_uninitiated_model_throws_witness:
  "snd (selected_model python_request ready_provider) = ''none'' \<and>
   fetch python_request ready_provider =
     (FetchThrows (TypeError ''this._ready[model] is undefined''), ready_provider)"
proof -
  let ?evs = "[Message MWorkerStarted, Microtask, ConfigureWith DEFAULT_SETTINGS, Microtask,
               Message (MInitiate (textModel DEFAULT_SETTINGS)),
               Message (MReady (textModel DEFAULT_SETTINGS))]"
  have m: "snd (selected_model python_request ready_provider) = ''none''"
    by code_simp
  have r: "ready_provider = run ?evs new_provider"
    by (simp only: ready_provider_def)
  have m': "snd (selected_model python_request (run ?evs new_provider)) = ''none''"
    using m by (simp only: r)
  have i: "Message (MInitiate ''none'') \<notin> set ?evs"
    by (simp add: DEFAULT_SETTINGS_def)
  have o: "''none'' \<notin> set Object_prototype_keys"
    by (simp add: Object_prototype_keys_def)
  have p: "''none'' \<notin> set PromiseDelegate_keys"
    by (simp add: PromiseDelegate_keys_def)
  from fetch_of_uninitiated_model_throws [OF m' i o p] m show ?thesis
    by (simp only: r simp_thms)
qed

subsection \<open>The epoch and the tokens\<close>

lemma sint_small: "n < 2 ^ 31 \<Longrightarrow> sint (word_of_nat n :: 32 word) = int n"
proof -
  assume "n < 2 ^ 31"
  then have "int n < 2 ^ 31" by (simp flip: of_nat_less_iff)
  then have "signed_take_bit 31 (int n) = int n"
    by (simp add: signed_take_bit_int_eq_self)
  moreover have "sint (word_of_nat n :: 32 word) = signed_take_bit 31 (int n)"
    using signed_of_nat [where ?'a = int and ?'b = 32, of n] by simp
  ultimately show ?thesis by simp
qed

lemma sint_wraps: "sint (word_of_nat (2 ^ 31) :: 32 word) = - (2 ^ 31)"
proof -
  have "sint (word_of_nat (2 ^ 31) :: 32 word) = signed_take_bit 31 (int (2 ^ 31))"
    using signed_of_nat [where ?'a = int and ?'b = 32, of "2 ^ 31"] by simp
  also have "\<dots> = - (2 ^ 31)"
    by (simp add: signed_take_bit_eq_take_bit_minus)
  finally show ?thesis .
qed

text \<open>
  One round on a provider that has nothing due and whose text model is ready: the
  \<open>fetch\<close> completes in its microtask.
\<close>

lemma round_completes:
  assumes "jobs c = []" and "ready c (textModel (settings c)) = Some d"
    and "readyDelegates c d = Resolved ()"
  shows "run [Fetch markdown_request, Microtask] c =
           fetch_continue (textModel (settings c)) True markdown_request c"
proof -
  have sel: "selected_model markdown_request c = (True, textModel (settings c))"
    by (simp add: selected_model_def markdown_request_def textMimeTypes_def)
  have c: "c\<lparr>jobs := []\<rparr> = c"
    using assms(1) by (cases c) simp
  from assms sel have
    "snd (fetch markdown_request c) =
       c\<lparr>jobs := [FetchJob (textModel (settings c)) True markdown_request]\<rparr>"
    by (simp add: fetch_def ready_lookup_def)
  then show ?thesis
    by (simp add: step_def microtask_def run_job_def c)
qed

lemma rounds_complete:
  assumes "jobs c = []" and "ready c (textModel (settings c)) = Some d"
    and "readyDelegates c d = Resolved ()"
  shows "currentGeneration (run (rounds n) c) = currentGeneration c + n"
  using assms
proof (induction n arbitrary: c)
  case 0
  then show ?case by (simp add: rounds_def)
next
  case (Suc n)
  let ?c = "fetch_continue (textModel (settings c)) True markdown_request c"
  have "rounds (Suc n) = [Fetch markdown_request, Microtask] @ rounds n"
    by (simp add: rounds_def)
  then have "run (rounds (Suc n)) c = run (rounds n) (run [Fetch markdown_request, Microtask] c)"
    by (simp only: run_append)
  also have "\<dots> = run (rounds n) ?c"
    using round_completes [OF Suc.prems] by (simp only:)
  finally have r: "run (rounds (Suc n)) c = run (rounds n) ?c" .
  have "currentGeneration (run (rounds n) ?c) = currentGeneration ?c + n"
    using Suc.prems by (intro Suc.IH) simp_all
  with r show ?case by simp
qed

lemma counters_agree_ready_provider: "counters_agree ready_provider"
  unfolding ready_provider_def
  using counters_agree_new_provider by (rule counters_agree_run)

lemma rounds_on_ready_provider:
  assumes "0 < n"
  shows "currentGeneration (run (rounds n) ready_provider) = n \<and>
         sharedArray0 (run (rounds n) ready_provider) = word_of_nat n \<and>
         g_counter (last (generates (posted (run (rounds n) ready_provider)))) = n"
proof -
  let ?c = "run (rounds n) ready_provider"
  have j: "jobs ready_provider = []" by code_simp
  have r: "ready ready_provider (textModel (settings ready_provider)) = Some 0" by code_simp
  have d: "readyDelegates ready_provider 0 = Resolved ()" by code_simp
  have z: "currentGeneration ready_provider = 0" by code_simp
  from rounds_complete [OF j r d, of n] z have k: "currentGeneration ?c = n" by simp
  have inv: "counters_agree ?c"
    using counters_agree_ready_provider by (rule counters_agree_run)
  then have cell: "sharedArray0 ?c = word_of_nat (currentGeneration ?c)"
    and list: "map g_counter (generates (posted ?c)) = [1..<Suc (currentGeneration ?c)]"
    by (simp_all add: counters_agree_def)
  from list k have l: "map g_counter (generates (posted ?c)) = [1..<Suc n]" by simp
  with assms have ne: "generates (posted ?c) \<noteq> []" by auto
  then have "g_counter (last (generates (posted ?c))) = last (map g_counter (generates (posted ?c)))"
    by (simp add: last_map)
  also have "\<dots> = last [1..<Suc n]" by (simp only: l)
  also have "\<dots> = n" using assms by simp
  finally have "g_counter (last (generates (posted ?c))) = n" .
  with k cell show ?thesis by simp
qed

text \<open>
  C5, as the spec states it, fails for the shared cell. It is an element of an
  \<open>Int32Array\<close>: after \<open>2 ^ 31\<close> completed \<open>fetch\<close> calls the provider's counter is
  \<open>2 ^ 31\<close> and the last request carries it, but the cell reads \<open>- 2 ^ 31\<close>: the
  shared epoch neither equals the number of calls nor has it increased.
\<close>

theorem shared_epoch_wraps:
  "currentGeneration (run (rounds (2 ^ 31)) ready_provider) = 2 ^ 31 \<and>
   g_counter (last (generates (posted (run (rounds (2 ^ 31)) ready_provider)))) = 2 ^ 31 \<and>
   sint (sharedArray0 (run (rounds (2 ^ 31)) ready_provider)) = - (2 ^ 31)"
proof -
  have "(0::nat) < 2 ^ 31" by simp
  from rounds_on_ready_provider [OF this]
  have k: "currentGeneration (run (rounds (2 ^ 31)) ready_provider) = 2 ^ 31"
    and g: "g_counter (last (generates (posted (run (rounds (2 ^ 31)) ready_provider)))) = 2 ^ 31"
    and s: "sharedArray0 (run (rounds (2 ^ 31)) ready_provider) = word_of_nat (2 ^ 31)"
    by blast+
  from s have "sint (sharedArray0 (run (rounds (2 ^ 31)) ready_provider)) = - (2 ^ 31)"
    by (simp only: sint_wraps)
  with k g show ?thesis by (simp only: simp_thms)
qed

text \<open>
  C5, amended. Whatever events the provider has handled since its construction, its
  epoch counter equals the number of \<open>fetch\<close> calls that completed, the generate
  messages dispatched so far carry the counters 1, 2, ..., K in this order (each the
  epoch right after its own bump, so strictly increasing), and a \<open>fetch\<close> that gets
  past its \<open>await\<close> increases the epoch by exactly one. The shared cell holds the
  low 32 bits of the epoch; read as the signed element it is, it equals the epoch as
  long as fewer than \<open>2 ^ 31\<close> calls have completed.
\<close>

theorem epoch_counts_fetches:
  "currentGeneration (run evs new_provider) = length (fetched (run evs new_provider)) \<and>
   map g_counter (generates (posted (run evs new_provider))) =
     [1..<Suc (length (fetched (run evs new_provider)))] \<and>
   currentGeneration (fetch_continue model isText request c) = Suc (currentGeneration c) \<and>
   sharedArray0 (run evs new_provider) = word_of_nat (currentGeneration (run evs new_provider)) \<and>
   (length (fetched (run evs new_provider)) < 2 ^ 31 \<longrightarrow>
      sint (sharedArray0 (run evs new_provider)) = int (length (fetched (run evs new_provider))))"
  using counters_agree_run [OF counters_agree_new_provider, of evs]
  by (simp add: counters_agree_def sint_small)

text \<open>Two completed calls: the epoch and the shared cell are 2, and the requests carry 1 and 2.\<close>

theorem epoch_counts_fetches_witness:
  "length (fetched (run [Fetch markdown_request, Microtask, Fetch markdown_request, Microtask]
                      ready_provider)) = 2 \<and>
   (2::nat) < 2 ^ 31 \<and>
   currentGeneration (run [Fetch markdown_request, Microtask, Fetch markdown_request, Microtask]
                        ready_provider) = 2 \<and>
   sint (sharedArray0 (run [Fetch markdown_request, Microtask, Fetch markdown_request, Microtask]
                         ready_provider)) = 2 \<and>
   map g_counter
     (generates (posted (run [Fetch markdown_request, Microtask, Fetch markdown_request, Microtask]
                           ready_provider))) = [1, 2]"
proof -
  let ?evs = "[Message MWorkerStarted, Microtask, ConfigureWith DEFAULT_SETTINGS, Microtask,
               Message (MInitiate (textModel DEFAULT_SETTINGS)),
               Message (MReady (textModel DEFAULT_SETTINGS)),
               Fetch markdown_request, Microtask, Fetch markdown_request, Microtask]"
  have r: "run [Fetch markdown_request, Microtask, Fetch markdown_request, Microtask] ready_provider =
           run ?evs new_provider"
    by (simp add: ready_provider_def)
  have l: "length (fetched (run ?evs new_provider)) = 2"
    by code_simp
  have u: "[1..<Suc 2] = [1, 2]"
    by code_simp
  have b: "(2::nat) < 2 ^ 31" by simp
  from epoch_counts_fetches [of ?evs]
  have e1: "currentGeneration (run ?evs new_provider) = length (fetched (run ?evs new_provider))"
    and e2: "map g_counter (generates (posted (run ?evs new_provider))) =
             [1..<Suc (length (fetched (run ?evs new_provider)))]"
    and e3: "length (fetched (run ?evs new_provider)) < 2 ^ 31 \<longrightarrow>
             sint (sharedArray0 (run ?evs new_provider)) = int (length (fetched (run ?evs new_provider)))"
    by blast+
  from e1 l have c: "currentGeneration (run ?evs new_provider) = 2"
    by (simp only:)
  from e2 l u have g: "map g_counter (generates (posted (run ?evs new_provider))) = [1, 2]"
    by (simp only:)
  from e3 l b have "sint (sharedArray0 (run ?evs new_provider)) = int 2"
    by (simp only: simp_thms)
  then have s: "sint (sharedArray0 (run ?evs new_provider)) = 2"
    by simp
  from l b c s g show ?thesis
    by (simp only: r simp_thms)
qed

text \<open>
  C10. The tokens of all generate messages a provider has dispatched, in order, are the
  tokens of the counter values 1, 2, ... up to the current \<open>_tokenCounter\<close>; so they
  are pairwise distinct, within one \<open>fetch\<close> and across all of them.
\<close>

theorem minted_tokens_distinct:
  "concat (map g_idTokens (generates (posted (run evs new_provider)))) =
     map token_of [1..<Suc (tokenCounter (run evs new_provider))] \<and>
   distinct (concat (map g_idTokens (generates (posted (run evs new_provider)))))"
proof -
  have eq: "concat (map g_idTokens (generates (posted (run evs new_provider)))) =
            map token_of [1..<Suc (tokenCounter (run evs new_provider))]"
    using counters_agree_run [OF counters_agree_new_provider, of evs]
    by (simp add: counters_agree_def)
  have "distinct (map token_of [1..<Suc (tokenCounter (run evs new_provider))])"
    by (simp add: distinct_map inj_on_subset [OF token_of_inj])
  with eq show ?thesis by simp
qed

text \<open>Two completed calls with two candidates each mint \<open>T1\<close> to \<open>T4\<close>.\<close>

theorem minted_tokens_distinct_witness:
  "concat (map g_idTokens
     (generates (posted (run [Fetch markdown_request, Microtask, Fetch markdown_request, Microtask]
                           ready_provider)))) =
     [''T1'', ''T2'', ''T3'', ''T4''] \<and>
   distinct [''T1'', ''T2'', ''T3'', ''T4'']"
proof -
  let ?evs = "[Message MWorkerStarted, Microtask, ConfigureWith DEFAULT_SETTINGS, Microtask,
               Message (MInitiate (textModel DEFAULT_SETTINGS)),
               Message (MReady (textModel DEFAULT_SETTINGS)),
               Fetch markdown_request, Microtask, Fetch markdown_request, Microtask]"
  have r: "run [Fetch markdown_request, Microtask, Fetch markdown_request, Microtask] ready_provider =
           run ?evs new_provider"
    by (simp add: ready_provider_def)
  have k: "map token_of [1..<Suc (tokenCounter (run ?evs new_provider))] = [''T1'', ''T2'', ''T3'', ''T4'']"
    by code_simp
  from minted_tokens_distinct [of ?evs]
  have e: "concat (map g_idTokens (generates (posted (run ?evs new_provider)))) =
           map token_of [1..<Suc (tokenCounter (run ?evs new_provider))]"
    and d: "distinct (concat (map g_idTokens (generates (posted (run ?evs new_provider)))))"
    by blast+
  from e k have t: "concat (map g_idTokens (generates (posted (run ?evs new_provider)))) =
                    [''T1'', ''T2'', ''T3'', ''T4'']"
    by (simp only:)
  from d t have "distinct [''T1'', ''T2'', ''T3'', ''T4'']"
    by (simp only:)
  with t show ?thesis
    by (simp only: r simp_thms)
qed

subsection \<open>Exceptions and the request's parameters\<close>

text \<open>
  C3 (code defect). The claim: on an exception event of a generation that failed
  mid-stream, the provider fails the pending pulls of the tokens listed. The worker does
  list the tokens in the event, but \<open>_msgException\<close> only shows the notification: the
  pull pending on \<open>T1\<close> stays pending, and its entry stays in the map.
\<close>

theorem exception_leaves_pull_pending:
  "fst (snd (generate (environment_of (Fulfils failing_engine)) example_generate started_worker)) =
     [MInitiate ''m'', MDone ''m'', MUpdate ''x'' ''T1'', MUpdate ''y'' ''T2'',
      MException (Some [''T1'', ''T2'']) (Some ''device lost'')] \<and>
   streamPromises pulling_provider ''T1'' = Some 0 \<and>
   delegates pulling_provider 0 = Pending \<and>
   (let c' = snd (onMessageReceived (MException (Some [''T1'', ''T2'']) (Some ''device lost'')) pulling_provider)
    in streamPromises c' ''T1'' = Some 0 \<and>
       delegates c' 0 = Pending \<and>
       stream_settled (Awaiting 0) c' = (Waits, Awaiting 0) \<and>
       notifications c' = notifications pulling_provider @ [N_error (WorkerError (Some ''device lost''))])"
  by code_simp

text \<open>
  C7 (code defect). The claim: the generate message carries the system prompt and all
  sampling parameters, and the worker's request uses exactly them. With the default
  settings (\<open>max_gen_len = 512\<close>) the message of \<open>fetch\<close> has no \<open>max_gen_len\<close>, so
  the request is submitted with it undefined; and the request's system message is the
  fixed pirate text of the worker, not the message's \<open>systemPrompt\<close>.
\<close>

theorem fetch_drops_max_gen_len_and_system_prompt:
  "max_gen_len (settings ready_provider) = Some 512 \<and>
   map g_max_gen_len (generates (posted (run [Fetch markdown_request, Microtask] ready_provider))) = [None] \<and>
   map g_systemPrompt (generates (posted (run [Fetch markdown_request, Microtask] ready_provider))) =
     [''You are a completion model generating Markdown suggestions''] \<and>
   map (\<lambda>data. r_messages (chat_request data))
     (generates (posted (run [Fetch markdown_request, Microtask] ready_provider))) =
     [[(''system'', ''You are a pirate chatbot who always responds in pirate speak!''), (''user'', ''hello'')]] \<and>
   map (\<lambda>data. r_max_gen_len (chat_request data))
     (generates (posted (run [Fetch markdown_request, Microtask] ready_provider))) =
     [None]"
  by code_simp

end
